theory Spec2Isabelle
  imports Main "HOL-Library.AList"
begin

section \<open>Python values shared by both modules\<close>

text \<open>
  An exception object as the code observes it: \<open>type(e).__name__\<close>, \<open>str(e)\<close>,
  the text \<open>traceback.format_exc()\<close> gives while it is handled, and
  \<open>getattr(e, 'debug_logs', None)\<close>. \<open>PyException\<close> is an instance of a subclass of
  \<open>Exception\<close>; \<open>PyBaseException\<close> is one of \<open>BaseException\<close> outside \<open>Exception\<close>
  (\<open>SystemExit\<close>, \<open>KeyboardInterrupt\<close>, \<open>asyncio.CancelledError\<close>), which the handlers
  of the source, all of them \<open>except Exception\<close>, do not catch.
\<close>

datatype py_exception =
    is_Exception: PyException (exc_type: string) (exc_msg: string) (exc_traceback: string)
      (exc_debug_logs: "string option")
  | PyBaseException (exc_type: string) (exc_msg: string) (exc_traceback: string)
      (exc_debug_logs: "string option")

text \<open>The traceback text of an exception raised by the interpreter itself is not modelled further.\<close>

definition internal_traceback :: string where
  "internal_traceback = ''Traceback (most recent call last):''"

text \<open>\<open>d[k]\<close> on a dict without the key \<open>k\<close>: \<open>str(KeyError(k))\<close> is the repr of the key.\<close>

definition KeyError :: "string \<Rightarrow> py_exception" where
  "KeyError k = PyException ''KeyError'' ([CHR 0x27] @ k @ [CHR 0x27]) internal_traceback None"

text \<open>\<open>x.a\<close> on an object of class \<open>cls\<close> without attribute \<open>a\<close>.\<close>

definition AttributeError :: "string \<Rightarrow> string \<Rightarrow> py_exception" where
  "AttributeError cls a =
     PyException ''AttributeError''
       ([CHR 0x27] @ cls @ [CHR 0x27] @ '' object has no attribute '' @ [CHR 0x27] @ a @ [CHR 0x27])
       internal_traceback None"

section \<open>\<open>aios/llm_core/adapter.py\<close>: choosing the backend class\<close>

text \<open>
  \<open>str.lower\<close> on the ASCII letters; the characters of a model name outside ASCII are
  left as they are.
\<close>

definition lower_char :: "char \<Rightarrow> char" where
  "lower_char c =
     (let n = (of_char c :: nat) in if 65 \<le> n \<and> n \<le> 90 then char_of (n + 32) else c)"

definition lower :: "string \<Rightarrow> string" where
  "lower s = map lower_char s"

text \<open>\<open>s.startswith(p)\<close>.\<close>

definition startswith :: "string \<Rightarrow> string \<Rightarrow> bool" where
  "startswith s p = (take (length p) s = p)"

text \<open>
  \<open>next((prefix for prefix in MODEL_PREFIX_MAP.keys() if name.startswith(prefix)), None)\<close>:
  the keys are visited in the dict's insertion order and the first hit is returned.
\<close>

fun next_prefix :: "string list \<Rightarrow> string \<Rightarrow> string option" where
  "next_prefix [] name = None"
| "next_prefix (p # ps) name = (if startswith name p then Some p else next_prefix ps name)"

text \<open>
  \<open>BACKEND_REGISTRY\<close> (backend id to class) and \<open>MODEL_PREFIX_MAP\<close> (prefix to backend id)
  are imported from \<open>aios.llm_core.registry\<close>; both dicts are parameters here, as
  association lists in insertion order. \<open>'c\<close> is the type of the backend classes and
  \<open>HfNativeLLM\<close> the class used when nothing else is found.

  \<open>LLMAdapter.__init__\<close>, lines 59 to 82, up to the call of the chosen class: the result
  is the class that is instantiated, or the exception of a failed dict lookup.
  \<open>llm_backend\<close> is \<open>Optional[str]\<close>; \<open>if llm_backend\<close> is false for \<open>None\<close> and for
  the empty string, and \<open>if model_prefix\<close> likewise.
\<close>

definition select_model_class ::
  "(string \<times> 'c) list \<Rightarrow> (string \<times> string) list \<Rightarrow> 'c \<Rightarrow> string \<Rightarrow> string option
     \<Rightarrow> py_exception + 'c" where
  "select_model_class BACKEND_REGISTRY MODEL_PREFIX_MAP HfNativeLLM llm_name llm_backend =
     (case (case llm_backend of
              None \<Rightarrow> None
            | Some b \<Rightarrow> if b \<noteq> [] then map_of BACKEND_REGISTRY b else None) of
        Some model_class \<Rightarrow> Inr model_class
      | None \<Rightarrow>
         (case next_prefix (map fst MODEL_PREFIX_MAP) (lower llm_name) of
            None \<Rightarrow> Inr HfNativeLLM
          | Some model_prefix \<Rightarrow>
              if model_prefix \<noteq> [] then
                (case map_of MODEL_PREFIX_MAP model_prefix of
                   None \<Rightarrow> Inl (KeyError model_prefix)
                 | Some inferred_backend \<Rightarrow>
                     (case map_of BACKEND_REGISTRY inferred_backend of
                        None \<Rightarrow> Inl (KeyError inferred_backend)
                      | Some model_class \<Rightarrow> Inr model_class))
              else Inr HfNativeLLM))"

text \<open>
  The whole constructor: the chosen class is called with the common model parameters
  (\<open>llm_name\<close>, \<open>log_mode\<close>, \<open>use_context_manager\<close>, \<open>api_key\<close>) and its instance becomes
  \<open>self.model\<close>. The classes' constructors live outside this module: \<open>construct\<close>.
\<close>

definition LLMAdapter_init ::
  "('c \<Rightarrow> string \<times> string \<times> bool \<times> string option \<Rightarrow> py_exception + 'm)
     \<Rightarrow> (string \<times> 'c) list \<Rightarrow> (string \<times> string) list \<Rightarrow> 'c
     \<Rightarrow> string \<Rightarrow> string \<Rightarrow> string option \<Rightarrow> bool \<Rightarrow> string option \<Rightarrow> py_exception + 'm" where
  "LLMAdapter_init construct BACKEND_REGISTRY MODEL_PREFIX_MAP HfNativeLLM
       llm_name log_mode llm_backend use_context_manager api_key =
     (let model_params = (llm_name, log_mode, use_context_manager, api_key) in
      case select_model_class BACKEND_REGISTRY MODEL_PREFIX_MAP HfNativeLLM llm_name llm_backend of
        Inl e \<Rightarrow> Inl e
      | Inr model_class \<Rightarrow> construct model_class model_params)"

text \<open>
  What the two tables of a consistent registry module satisfy: no backend id and no
  prefix is the empty string, and every backend id the prefix table names is registered.
\<close>

definition backend_ids_ok :: "(string \<times> 'c) list \<Rightarrow> bool" where
  "backend_ids_ok BACKEND_REGISTRY = list_all (\<lambda>(b, c). b \<noteq> []) BACKEND_REGISTRY"

definition tables_ok :: "(string \<times> 'c) list \<Rightarrow> (string \<times> string) list \<Rightarrow> bool" where
  "tables_ok BACKEND_REGISTRY MODEL_PREFIX_MAP =
     (backend_ids_ok BACKEND_REGISTRY \<and>
      list_all (\<lambda>(p, b). p \<noteq> [] \<and> map_of BACKEND_REGISTRY b \<noteq> None) MODEL_PREFIX_MAP)"

text \<open>Example tables, used to run the definitions on concrete inputs.\<close>

definition example_registry :: "(string \<times> string) list" where
  "example_registry =
     [(''anthropic'', ''ClaudeLLM''), (''openai'', ''GPTLLM''),
      (''ollama'', ''OllamaLLM''), (''vllm'', ''vLLM'')]"

definition example_prefix_map :: "(string \<times> string) list" where
  "example_prefix_map =
     [(''claude'', ''anthropic''), (''gpt'', ''openai''), (''ollama'', ''ollama'')]"

section \<open>\<open>runtime/kernel.py\<close>: the component registry and its endpoints\<close>

subsection \<open>Values\<close>

text \<open>JSON-like values: request payloads, endpoint results, what the collaborators return.\<close>

datatype json = JNone | JStr string | JInt int | JDict "(string \<times> json) list"

text \<open>
  A component handle, as far as the kernel looks at it: its class name, and for each of the
  methods \<open>cleanup\<close>, \<open>start\<close> and \<open>stop\<close> whether the object has the attribute
  (\<open>None\<close>: it has not) and what calling it does (\<open>Some None\<close>: returns,
  \<open>Some (Some e)\<close>: raises \<open>e\<close>).
\<close>

record component =
  cls_name :: string
  cleanup_attr :: "py_exception option option"
  start_attr :: "py_exception option option"
  stop_attr :: "py_exception option option"

text \<open>
  The values held by \<open>active_components\<close>: \<open>None\<close>, a component handle, or the dict
  \<open>{"submit": submit_agent, "await": await_agent_execution}\<close> of the factory.
\<close>

type_synonym submit_fn = "string \<Rightarrow> json \<Rightarrow> py_exception + json"
type_synonym await_fn = "int \<Rightarrow> py_exception + json"

datatype py_value = PyNone | Component component | FactoryDict submit_fn await_fn

text \<open>
  Truth value of a slot: \<open>None\<close> is false, the factory's dict is non-empty, and a handle
  is an object of a class without \<open>__bool__\<close> or \<open>__len__\<close> (as \<open>LLMAdapter\<close>), hence true.
\<close>

fun truthy :: "py_value \<Rightarrow> bool" where
  "truthy PyNone = False"
| "truthy (Component c) = True"
| "truthy (FactoryDict submit await) = True"

text \<open>\<open>hasattr(v, "cleanup")\<close> followed by \<open>v.cleanup()\<close>; \<open>None\<close> is a normal return.\<close>

fun call_cleanup_if_present :: "py_value \<Rightarrow> py_exception option" where
  "call_cleanup_if_present (Component c) = (case cleanup_attr c of None \<Rightarrow> None | Some r \<Rightarrow> r)"
| "call_cleanup_if_present v = None"

text \<open>\<open>v.stop()\<close>.\<close>

fun call_stop :: "py_value \<Rightarrow> py_exception option" where
  "call_stop PyNone = Some (AttributeError ''NoneType'' ''stop'')"
| "call_stop (FactoryDict submit await) = Some (AttributeError ''dict'' ''stop'')"
| "call_stop (Component c) =
     (case stop_attr c of None \<Rightarrow> Some (AttributeError (cls_name c) ''stop'') | Some r \<Rightarrow> r)"

text \<open>\<open>scheduler.start()\<close> on the handle \<open>fifo_scheduler\<close> returned.\<close>

definition call_start :: "component \<Rightarrow> py_exception option" where
  "call_start c =
     (case start_attr c of None \<Rightarrow> Some (AttributeError (cls_name c) ''start'') | Some r \<Rightarrow> r)"

text \<open>
  \<open>active_components\<close> is a dict: an association list in insertion order. \<open>d[k] = v\<close> is
  \<open>AList.update k v d\<close>, which replaces the value of a key in place and appends a new key.
\<close>

type_synonym registry = "(string \<times> py_value) list"

definition active_components :: registry where
  "active_components =
     [(''llm'', PyNone), (''storage'', PyNone), (''memory'', PyNone), (''tool'', PyNone),
      (''scheduler'', PyNone)]"

text \<open>\<open>d[k]\<close>.\<close>

definition getitem :: "registry \<Rightarrow> string \<Rightarrow> py_exception + py_value" where
  "getitem d k = (case map_of d k of None \<Rightarrow> Inl (KeyError k) | Some v \<Rightarrow> Inr v)"

text \<open>
  What an endpoint raises: an \<open>HTTPException\<close> with status code and detail, or an exception
  no handler of the endpoint catches.
\<close>

datatype error = HTTPException (status_code: int) (detail: json) | Uncaught py_exception

type_synonym result = "(error + json) \<times> registry"

text \<open>
  \<open>except Exception as e: raise handled\<close>: an exception outside \<open>Exception\<close> passes
  through the handler.
\<close>

definition except_Exception :: "py_exception \<Rightarrow> error \<Rightarrow> error" where
  "except_Exception e handled = (if is_Exception e then handled else Uncaught e)"

definition success :: "string \<Rightarrow> json" where
  "success message = JDict [(''status'', JStr ''success''), (''message'', JStr message)]"

text \<open>The detail dict of the tool and submit handlers.\<close>

definition error_detail :: "string \<Rightarrow> py_exception \<Rightarrow> json" where
  "error_detail what e =
     JDict [(''error'', JStr what), (''message'', JStr (exc_msg e)),
            (''traceback'', JStr (exc_traceback e))]"

subsection \<open>Request bodies\<close>

record LLMConfig =
  llm_name :: string
  max_gpu_memory :: "(string \<times> json) list option"
  eval_device :: string
  max_new_tokens :: int
  llm_log_mode :: string
  llm_backend :: string
  api_key :: "string option"

record StorageConfig =
  root_dir :: string
  use_vector_db :: bool
  vector_db_config :: "(string \<times> json) list option"

record MemoryConfig =
  memory_limit :: int
  eviction_k :: int
  custom_eviction_policy :: "string option"

record ToolManagerConfig =
  allowed_tools :: "string list option"
  custom_tools :: "(string \<times> json) list option"

record SchedulerConfig =
  log_mode :: string
  max_workers :: int
  custom_syscalls :: "(string \<times> json) list option"

record AgentSubmit =
  agent_id :: string
  agent_config :: "(string \<times> json) list"

text \<open>The four fields of cerebrum's \<open>LLMQuery\<close> the kernel reads.\<close>

record LLMQuery =
  messages :: json
  tools :: json
  action_type :: json
  message_return_type :: json

text \<open>\<open>Literal["llm", "tool", "storage", "memory"]\<close>.\<close>

datatype query_type = Llm | Tool | Storage | Memory

record QueryRequest =
  agent_name :: string
  query_type :: query_type
  query_data :: LLMQuery

subsection \<open>Setup endpoints\<close>

text \<open>
  The constructors of the components are imported from \<open>aios.hooks\<close>; each is a parameter
  that takes the arguments the endpoint passes and returns the handle or raises.
\<close>

definition setup_llm ::
  "(string \<times> string \<times> (string \<times> json) list option \<times> string \<times> int \<times> string
      \<Rightarrow> py_exception + component)
     \<Rightarrow> LLMConfig \<Rightarrow> registry \<Rightarrow> result" where
  "setup_llm useCore config d =
     (case useCore (llm_name config, llm_backend config, max_gpu_memory config,
                    eval_device config, max_new_tokens config, llm_log_mode config) of
        Inr llm \<Rightarrow> (Inr (success ''LLM core initialized''), AList.update ''llm'' (Component llm) d)
      | Inl e \<Rightarrow>
          (Inl (except_Exception e
                  (HTTPException 500 (JStr (''Failed to initialize LLM core: '' @ exc_msg e)))),
           d))"

definition setup_storage ::
  "(string \<times> bool \<times> (string \<times> json) list \<Rightarrow> py_exception + component)
     \<Rightarrow> StorageConfig \<Rightarrow> registry \<Rightarrow> result" where
  "setup_storage useStorageManager config d =
     (case useStorageManager (root_dir config, use_vector_db config,
              (case vector_db_config config of None \<Rightarrow> [] | Some kw \<Rightarrow> kw)) of
        Inr storage_manager \<Rightarrow>
          (Inr (success ''Storage manager initialized''),
           AList.update ''storage'' (Component storage_manager) d)
      | Inl e \<Rightarrow>
          (Inl (except_Exception e
                  (HTTPException 500
                     (JStr (''Failed to initialize storage manager: '' @ exc_msg e)))),
           d))"

definition setup_memory ::
  "(int \<times> int \<times> py_value \<Rightarrow> py_exception + component) \<Rightarrow> MemoryConfig \<Rightarrow> registry \<Rightarrow> result" where
  "setup_memory useMemoryManager config d =
     (case getitem d ''storage'' of
        Inl e \<Rightarrow> (Inl (Uncaught e), d)
      | Inr storage \<Rightarrow>
          if \<not> truthy storage then
            (Inl (HTTPException 400 (JStr ''Storage manager must be initialized first'')), d)
          else
            (case useMemoryManager (memory_limit config, eviction_k config, storage) of
               Inr memory_manager \<Rightarrow>
                 (Inr (success ''Memory manager initialized''),
                  AList.update ''memory'' (Component memory_manager) d)
             | Inl e \<Rightarrow>
                 (Inl (except_Exception e
                         (HTTPException 500
                            (JStr (''Failed to initialize memory manager: '' @ exc_msg e)))),
                  d)))"

definition setup_tool_manager ::
  "(unit \<Rightarrow> py_exception + component) \<Rightarrow> ToolManagerConfig \<Rightarrow> registry \<Rightarrow> result" where
  "setup_tool_manager useToolManager config d =
     (case useToolManager () of
        Inr tool_manager \<Rightarrow>
          (Inr (success ''Tool manager initialized''),
           AList.update ''tool'' (Component tool_manager) d)
      | Inl e \<Rightarrow>
          (Inl (except_Exception e
                  (HTTPException 500 (error_detail ''Failed to initialize tool manager'' e))),
           d))"

definition required_components :: "string list" where
  "required_components = [''llm'', ''memory'', ''storage'', ''tool'']"

text \<open>\<open>[comp for comp in required_components if not active_components[comp]]\<close>.\<close>

fun missing_components :: "registry \<Rightarrow> string list \<Rightarrow> py_exception + string list" where
  "missing_components d [] = Inr []"
| "missing_components d (c # comps) =
     (case getitem d c of
        Inl e \<Rightarrow> Inl e
      | Inr v \<Rightarrow>
          (case missing_components d comps of
             Inl e \<Rightarrow> Inl e
           | Inr ms \<Rightarrow> Inr (if \<not> truthy v then c # ms else ms)))"

text \<open>\<open>sep.join(xs)\<close>.\<close>

fun join :: "string \<Rightarrow> string list \<Rightarrow> string" where
  "join sep [] = []"
| "join sep [x] = x"
| "join sep (x # y # ys) = x @ sep @ join sep (y # ys)"

text \<open>
  After the factory's dict is stored the endpoint prints \<open>active_components["llm"].model\<close>.
  The llm slot is active at that point and holds the \<open>LLMAdapter\<close>, whose attribute
  \<open>model\<close> is set on every path of its constructor; the print leaves the registry as it is.
\<close>

definition setup_agent_factory ::
  "(string \<times> int \<Rightarrow> py_exception + submit_fn \<times> await_fn) \<Rightarrow> SchedulerConfig \<Rightarrow> registry \<Rightarrow> result" where
  "setup_agent_factory useFactory config d =
     (case missing_components d required_components of
        Inl e \<Rightarrow> (Inl (Uncaught e), d)
      | Inr missing \<Rightarrow>
          if missing \<noteq> [] then
            (Inl (HTTPException 400
                    (JStr (''Missing required components: '' @ join '', '' missing))), d)
          else
            (case useFactory (log_mode config, max_workers config) of
               Inr (submit_agent, await_agent_execution) \<Rightarrow>
                 (Inr (success ''Agent factory initialized''),
                  AList.update ''factory'' (FactoryDict submit_agent await_agent_execution) d)
             | Inl e \<Rightarrow>
                 (Inl (except_Exception e
                         (HTTPException 500
                            (JStr (''Failed to initialize agent factory: '' @ exc_msg e)))),
                  d)))"

text \<open>
  The scheduler is stored in the registry (line 261) before \<open>scheduler.start()\<close> is called
  (line 263); both are inside the \<open>try\<close>.
\<close>

definition setup_scheduler ::
  "(py_value \<times> py_value \<times> py_value \<times> py_value \<times> string \<Rightarrow> py_exception + component)
     \<Rightarrow> SchedulerConfig \<Rightarrow> registry \<Rightarrow> result" where
  "setup_scheduler fifo_scheduler config d =
     (case missing_components d required_components of
        Inl e \<Rightarrow> (Inl (Uncaught e), d)
      | Inr missing \<Rightarrow>
          if missing \<noteq> [] then
            (Inl (HTTPException 400
                    (JStr (''Missing required components: '' @ join '', '' missing))), d)
          else
            (let failed = (\<lambda>e d'. (Inl (except_Exception e (HTTPException 500
                              (JStr (''Failed to initialize scheduler: '' @ exc_msg e)))), d')) in
             case getitem d ''llm'' of Inl e \<Rightarrow> failed e d | Inr llm \<Rightarrow>
             case getitem d ''memory'' of Inl e \<Rightarrow> failed e d | Inr memory_manager \<Rightarrow>
             case getitem d ''storage'' of Inl e \<Rightarrow> failed e d | Inr storage_manager \<Rightarrow>
             case getitem d ''tool'' of Inl e \<Rightarrow> failed e d | Inr tool_manager \<Rightarrow>
             case fifo_scheduler (llm, memory_manager, storage_manager, tool_manager,
                                  log_mode config) of
               Inl e \<Rightarrow> failed e d
             | Inr scheduler \<Rightarrow>
                 (let d' = AList.update ''scheduler'' (Component scheduler) d in
                  case call_start scheduler of
                    Some e \<Rightarrow> failed e d'
                  | None \<Rightarrow> (Inr (success ''Scheduler initialized''), d'))))"

subsection \<open>Status\<close>

definition get_status :: "registry \<Rightarrow> (string \<times> string) list" where
  "get_status d =
     map (\<lambda>(component, instance). (component, if truthy instance then ''active'' else ''inactive'')) d"

subsection \<open>Submitting and polling agents\<close>

text \<open>\<open>"factory" not in active_components or not active_components["factory"]\<close>.\<close>

definition factory_missing :: "registry \<Rightarrow> bool" where
  "factory_missing d = (case map_of d ''factory'' of None \<Rightarrow> True | Some f \<Rightarrow> \<not> truthy f)"

text \<open>
  \<open>active_components["factory"][key]\<close> for the keys \<open>"submit"\<close> and \<open>"await"\<close>: a handle
  is not subscriptable, \<open>None\<close> neither.
\<close>

definition TypeError_subscript :: "string \<Rightarrow> py_exception" where
  "TypeError_subscript cls =
     PyException ''TypeError''
       ([CHR 0x27] @ cls @ [CHR 0x27] @ '' object is not subscriptable'') internal_traceback None"

definition factory_entry :: "registry \<Rightarrow> py_exception + submit_fn \<times> await_fn" where
  "factory_entry d =
     (case getitem d ''factory'' of
        Inl e \<Rightarrow> Inl e
      | Inr PyNone \<Rightarrow> Inl (TypeError_subscript ''NoneType'')
      | Inr (Component c) \<Rightarrow> Inl (TypeError_subscript (cls_name c))
      | Inr (FactoryDict submit await) \<Rightarrow> Inr (submit, await))"

definition submit_agent :: "AgentSubmit \<Rightarrow> registry \<Rightarrow> result" where
  "submit_agent config d =
     (if factory_missing d then
        (Inl (HTTPException 400 (JStr ''Agent factory not initialized'')), d)
      else
        (let failed = (\<lambda>e. (Inl (except_Exception e
                              (HTTPException 500 (error_detail ''Failed to submit agent'' e))), d)) in
         case factory_entry d of
           Inl e \<Rightarrow> failed e
         | Inr (submit, await) \<Rightarrow>
             (case map_of (agent_config config) ''task'' of
                None \<Rightarrow> failed (KeyError ''task'')
              | Some task_input \<Rightarrow>
                  (case submit (agent_id config) task_input of
                     Inl e \<Rightarrow> failed e
                   | Inr execution_id \<Rightarrow>
                       (Inr (JDict [(''status'', JStr ''success''),
                                    (''execution_id'', execution_id),
                                    (''message'', JStr (''Agent '' @ agent_id config
                                                        @ '' submitted for execution''))]),
                        d)))))"

text \<open>The dict the outer handler of \<open>get_agent_status\<close> returns for an exception.\<close>

definition status_error :: "int \<Rightarrow> py_exception \<Rightarrow> json" where
  "status_error execution_id e =
     JDict [(''status'', JStr ''error''),
            (''message'', JStr (exc_msg e)),
            (''error'', JDict [(''type'', JStr (exc_type e)),
                               (''message'', JStr (exc_msg e)),
                               (''traceback'', JStr (exc_traceback e)),
                               (''debug_logs'',
                                  (case exc_debug_logs e of None \<Rightarrow> JNone | Some l \<Rightarrow> JStr l))]),
            (''execution_id'', JInt execution_id)]"

definition status_running :: "int \<Rightarrow> json" where
  "status_running execution_id =
     JDict [(''status'', JStr ''running''),
            (''message'', JStr ''Execution in progress''),
            (''execution_id'', JInt execution_id),
            (''debug_info'', JStr ''Agent execution still in progress'')]"

definition status_completed :: "int \<Rightarrow> json \<Rightarrow> json" where
  "status_completed execution_id r =
     JDict [(''status'', JStr ''completed''), (''result'', r), (''execution_id'', JInt execution_id)]"

text \<open>
  The inner handler (\<open>except Exception\<close>) logs and re-raises; the outer one
  (\<open>except Exception\<close>) returns the error dict. An exception outside \<open>Exception\<close> passes
  through both.
\<close>

definition poll_failed :: "int \<Rightarrow> py_exception \<Rightarrow> registry \<Rightarrow> result" where
  "poll_failed execution_id e d =
     (if is_Exception e then (Inr (status_error execution_id e), d) else (Inl (Uncaught e), d))"

definition get_agent_status :: "int \<Rightarrow> registry \<Rightarrow> result" where
  "get_agent_status execution_id d =
     (if factory_missing d then
        (Inl (HTTPException 400 (JStr ''Agent factory not initialized'')), d)
      else
        (case factory_entry d of
           Inl e \<Rightarrow> poll_failed execution_id e d
         | Inr (submit, await_execution) \<Rightarrow>
             (case await_execution execution_id of
                Inl e \<Rightarrow> poll_failed execution_id e d
              | Inr r \<Rightarrow>
                  if r = JNone then (Inr (status_running execution_id), d)
                  else (Inr (status_completed execution_id r), d))))"

subsection \<open>Cleanup\<close>

text \<open>
  The loop over \<open>["tool", "memory", "storage", "llm"]\<close>, inside the \<open>try\<close>: the result is
  the exception that ended it, if any, and the registry as the loop left it.
\<close>

fun cleanup_loop :: "string list \<Rightarrow> registry \<Rightarrow> py_exception option \<times> registry" where
  "cleanup_loop [] d = (None, d)"
| "cleanup_loop (c # cs) d =
     (case getitem d c of
        Inl e \<Rightarrow> (Some e, d)
      | Inr v \<Rightarrow>
          if truthy v then
            (case call_cleanup_if_present v of
               Some e \<Rightarrow> (Some e, d)
             | None \<Rightarrow> cleanup_loop cs (AList.update c PyNone d))
          else cleanup_loop cs d)"

definition cleanup_components :: "registry \<Rightarrow> result" where
  "cleanup_components d =
     (let failed = (\<lambda>e d'. (Inl (except_Exception e (HTTPException 500
                       (JStr (''Failed to cleanup components: '' @ exc_msg e)))), d')) in
      case getitem d ''scheduler'' of
        Inl e \<Rightarrow> failed e d
      | Inr scheduler \<Rightarrow>
          (case call_stop scheduler of
             Some e \<Rightarrow> failed e d
           | None \<Rightarrow>
               (case cleanup_loop [''tool'', ''memory'', ''storage'', ''llm'']
                       (AList.update ''scheduler'' PyNone d) of
                  (Some e, d') \<Rightarrow> failed e d'
                | (None, d') \<Rightarrow> (Inr (success ''All components cleaned up''), d'))))"

subsection \<open>Queries\<close>

text \<open>
  \<open>send_request\<close> comes from \<open>useSysCall()\<close>. For a query type other than \<open>"llm"\<close> the
  function body ends without a \<open>return\<close>: the endpoint returns \<open>None\<close>.
\<close>

definition handle_query ::
  "(string \<Rightarrow> LLMQuery \<Rightarrow> py_exception + json) \<Rightarrow> QueryRequest \<Rightarrow> registry \<Rightarrow> result" where
  "handle_query send_request request d =
     (if query_type request = Llm then
        (let query = \<lparr>messages = messages (query_data request),
                      tools = tools (query_data request),
                      action_type = action_type (query_data request),
                      message_return_type = message_return_type (query_data request)\<rparr> in
         case send_request (agent_name request) query of
           Inl e \<Rightarrow> (Inl (except_Exception e (HTTPException 500 (JStr (exc_msg e)))), d)
         | Inr response \<Rightarrow> (Inr response, d))
      else (Inr JNone, d))"

subsection \<open>Sequences of requests\<close>

text \<open>One request to the application, with the collaborator it reaches.\<close>

datatype request =
    SetupLlm "string \<times> string \<times> (string \<times> json) list option \<times> string \<times> int \<times> string
                \<Rightarrow> py_exception + component" LLMConfig
  | SetupStorage "string \<times> bool \<times> (string \<times> json) list \<Rightarrow> py_exception + component" StorageConfig
  | SetupMemory "int \<times> int \<times> py_value \<Rightarrow> py_exception + component" MemoryConfig
  | SetupTool "unit \<Rightarrow> py_exception + component" ToolManagerConfig
  | SetupFactory "string \<times> int \<Rightarrow> py_exception + submit_fn \<times> await_fn" SchedulerConfig
  | SetupScheduler "py_value \<times> py_value \<times> py_value \<times> py_value \<times> string
                      \<Rightarrow> py_exception + component" SchedulerConfig
  | GetStatus
  | SubmitAgent AgentSubmit
  | GetAgentStatus int
  | Cleanup
  | Query "string \<Rightarrow> LLMQuery \<Rightarrow> py_exception + json" QueryRequest

fun serve :: "request \<Rightarrow> registry \<Rightarrow> result" where
  "serve (SetupLlm useCore config) d = setup_llm useCore config d"
| "serve (SetupStorage useStorageManager config) d = setup_storage useStorageManager config d"
| "serve (SetupMemory useMemoryManager config) d = setup_memory useMemoryManager config d"
| "serve (SetupTool useToolManager config) d = setup_tool_manager useToolManager config d"
| "serve (SetupFactory useFactory config) d = setup_agent_factory useFactory config d"
| "serve (SetupScheduler fifo_scheduler config) d = setup_scheduler fifo_scheduler config d"
| "serve GetStatus d = (Inr (JDict (map (\<lambda>(k, v). (k, JStr v)) (get_status d))), d)"
| "serve (SubmitAgent config) d = submit_agent config d"
| "serve (GetAgentStatus execution_id) d = get_agent_status execution_id d"
| "serve Cleanup d = cleanup_components d"
| "serve (Query send_request request) d = handle_query send_request request d"

text \<open>The registry after a sequence of requests.\<close>

fun serve_all :: "request list \<Rightarrow> registry \<Rightarrow> registry" where
  "serve_all [] d = d"
| "serve_all (r # rs) d = serve_all rs (snd (serve r d))"

text \<open>Whether some factory setup of the sequence returned normally.\<close>

fun factory_setup_succeeded :: "request list \<Rightarrow> registry \<Rightarrow> bool" where
  "factory_setup_succeeded [] d = False"
| "factory_setup_succeeded (r # rs) d =
     ((case r of SetupFactory useFactory config \<Rightarrow> isl (fst (serve r d)) = False | _ \<Rightarrow> False)
      \<or> factory_setup_succeeded rs (snd (serve r d)))"

subsection \<open>Notions used to state the properties\<close>

text \<open>A slot is active when its key is present and its value is true.\<close>

definition slot_active :: "registry \<Rightarrow> string \<Rightarrow> bool" where
  "slot_active d k = (case map_of d k of None \<Rightarrow> False | Some v \<Rightarrow> truthy v)"

definition core_slots :: "string list" where
  "core_slots = [''llm'', ''storage'', ''memory'', ''tool'', ''scheduler'']"

text \<open>The order in which \<open>cleanup_components\<close> goes through the slots.\<close>

definition cleanup_order :: "string list" where
  "cleanup_order = [''scheduler'', ''tool'', ''memory'', ''storage'', ''llm'']"

text \<open>
  What holds of the registry after any sequence of requests: its keys are the five initial
  ones, followed by \<open>factory\<close> once a factory was stored, and memory is active only when
  storage is.
\<close>

definition registry_ok :: "registry \<Rightarrow> bool" where
  "registry_ok d \<longleftrightarrow>
     (map fst d = core_slots \<or> map fst d = core_slots @ [''factory'']) \<and>
     (slot_active d ''memory'' \<longrightarrow> slot_active d ''storage'')"

text \<open>
  \<open>d'\<close> is \<open>d\<close> with the slots of \<open>pre\<close> set to \<open>None\<close> and every other key as it was.
\<close>

definition reset_upto :: "string list \<Rightarrow> registry \<Rightarrow> registry \<Rightarrow> bool" where
  "reset_upto pre d d' \<longleftrightarrow>
     (\<forall>k\<in>set pre. map_of d' k = Some PyNone) \<and> (\<forall>k. k \<notin> set pre \<longrightarrow> map_of d' k = map_of d k)"

text \<open>
  The loop over \<open>cs\<close> went through \<open>pre\<close> and stopped in front of \<open>post\<close>; it ended
  without an exception exactly when nothing was left.
\<close>

definition stopped_at :: "string list \<Rightarrow> string list \<Rightarrow> string list \<Rightarrow> registry \<Rightarrow> bool" where
  "stopped_at pre post cs d \<longleftrightarrow>
     cs = pre @ post \<and> (fst (cleanup_loop cs d) = None \<longleftrightarrow> post = []) \<and>
     reset_upto pre d (snd (cleanup_loop cs d))"

text \<open>
  What \<open>cleanup_components\<close> raises at the slot \<open>k\<close> of the registry \<open>d\<close>, if anything:
  reading the key, then \<open>stop()\<close> for the scheduler, and for any other slot that is active
  \<open>cleanup()\<close> when the handle has one.
\<close>

definition release :: "registry \<Rightarrow> string \<Rightarrow> py_exception option" where
  "release d k =
     (case getitem d k of
        Inl e \<Rightarrow> Some e
      | Inr v \<Rightarrow>
          if k = ''scheduler'' then call_stop v
          else if truthy v then call_cleanup_if_present v else None)"

text \<open>
  One round of the cleanup loop at the slot \<open>c\<close>: the slot holds \<open>None\<close> afterwards and
  every other key is as it was.
\<close>

definition step_to :: "string \<Rightarrow> registry \<Rightarrow> registry \<Rightarrow> bool" where
  "step_to c d d1 \<longleftrightarrow> map_of d1 c = Some PyNone \<and> (\<forall>k. k \<noteq> c \<longrightarrow> map_of d1 k = map_of d k)"

text \<open>Reading a key of a returned dict.\<close>

fun jget :: "json \<Rightarrow> string \<Rightarrow> json option" where
  "jget (JDict kvs) k = map_of kvs k"
| "jget j k = None"

subsection \<open>Example handles, registries and requests\<close>

definition example_llm :: component where
  "example_llm = \<lparr>cls_name = ''LLMAdapter'', cleanup_attr = None, start_attr = None,
                   stop_attr = None\<rparr>"

definition example_storage :: component where
  "example_storage = \<lparr>cls_name = ''StorageManager'', cleanup_attr = None, start_attr = None,
                       stop_attr = None\<rparr>"

definition example_memory :: component where
  "example_memory = \<lparr>cls_name = ''MemoryManager'', cleanup_attr = Some None, start_attr = None,
                      stop_attr = None\<rparr>"

definition example_tool :: component where
  "example_tool = \<lparr>cls_name = ''ToolManager'', cleanup_attr = Some None, start_attr = None,
                    stop_attr = None\<rparr>"

definition example_scheduler :: component where
  "example_scheduler = \<lparr>cls_name = ''FIFOScheduler'', cleanup_attr = None,
                         start_attr = Some None, stop_attr = Some None\<rparr>"

text \<open>A tool manager whose \<open>cleanup()\<close> raises.\<close>

definition busy_tool :: component where
  "busy_tool = \<lparr>cls_name = ''ToolManager'',
                 cleanup_attr = Some (Some (PyException ''RuntimeError'' ''tool busy''
                                              internal_traceback None)),
                 start_attr = None, stop_attr = None\<rparr>"

text \<open>A scheduler whose \<open>start()\<close> raises.\<close>

definition stuck_scheduler :: component where
  "stuck_scheduler = \<lparr>cls_name = ''FIFOScheduler'', cleanup_attr = None,
                       start_attr = Some (Some (PyException ''RuntimeError''
                                                  ''cannot start new thread''
                                                  internal_traceback None)),
                       stop_attr = Some None\<rparr>"

text \<open>All five slots active, the tool manager being the one above.\<close>

definition busy_registry :: registry where
  "busy_registry =
     [(''llm'', Component example_llm), (''storage'', Component example_storage),
      (''memory'', Component example_memory), (''tool'', Component busy_tool),
      (''scheduler'', Component example_scheduler)]"

text \<open>The four prerequisites of the scheduler active, the scheduler not yet set up.\<close>

definition ready_registry :: registry where
  "ready_registry =
     [(''llm'', Component example_llm), (''storage'', Component example_storage),
      (''memory'', Component example_memory), (''tool'', Component example_tool),
      (''scheduler'', PyNone)]"

text \<open>Only llm and storage active.\<close>

definition half_registry :: registry where
  "half_registry =
     [(''llm'', Component example_llm), (''storage'', Component example_storage),
      (''memory'', PyNone), (''tool'', PyNone), (''scheduler'', PyNone)]"

definition example_submit :: submit_fn where
  "example_submit agent task = Inr (JInt 0)"

text \<open>An await primitive: execution 0 is still running, 1 has a result, any other id raises.\<close>

definition example_await :: await_fn where
  "example_await x =
     (if x = 0 then Inr JNone
      else if x = 1 then Inr (JStr ''summary of X'')
      else Inl (PyException ''KeyError'' ''unknown execution'' internal_traceback None))"

text \<open>Everything set up: the five slots active and the factory's dict stored.\<close>

definition factory_registry :: registry where
  "factory_registry =
     [(''llm'', Component example_llm), (''storage'', Component example_storage),
      (''memory'', Component example_memory), (''tool'', Component example_tool),
      (''scheduler'', Component example_scheduler),
      (''factory'', FactoryDict example_submit example_await)]"

text \<open>
  An await primitive that re-raises the \<open>SystemExit\<close> with which the awaited agent ended.
\<close>

definition exiting_await :: await_fn where
  "exiting_await x = Inl (PyBaseException ''SystemExit'' ''agent exited'' internal_traceback None)"

definition exiting_registry :: registry where
  "exiting_registry =
     [(''llm'', Component example_llm), (''storage'', Component example_storage),
      (''memory'', Component example_memory), (''tool'', Component example_tool),
      (''scheduler'', Component example_scheduler),
      (''factory'', FactoryDict example_submit exiting_await)]"

definition example_scheduler_config :: SchedulerConfig where
  "example_scheduler_config = \<lparr>log_mode = ''INFO'', max_workers = 64, custom_syscalls = None\<rparr>"

definition example_memory_config :: MemoryConfig where
  "example_memory_config =
     \<lparr>memory_limit = 104857600, eviction_k = 10, custom_eviction_policy = None\<rparr>"

definition example_storage_config :: StorageConfig where
  "example_storage_config = \<lparr>root_dir = ''root'', use_vector_db = False, vector_db_config = None\<rparr>"

definition example_agent :: AgentSubmit where
  "example_agent = \<lparr>agent_id = ''writer-1'', agent_config = [(''task'', JStr ''summarize X'')]\<rparr>"

definition example_tool_query :: QueryRequest where
  "example_tool_query =
     \<lparr>agent_name = ''writer-1'', query_type = Tool,
      query_data = \<lparr>messages = JNone, tools = JNone, action_type = JStr ''tool_use'',
                     message_return_type = JStr ''text''\<rparr>\<rparr>"

definition example_llm_config :: LLMConfig where
  "example_llm_config =
     \<lparr>llm_name = ''gpt-4'', max_gpu_memory = None, eval_device = ''cuda:0'',
      max_new_tokens = 2048, llm_log_mode = ''INFO'', llm_backend = ''default'',
      api_key = None\<rparr>"

definition example_tool_config :: ToolManagerConfig where
  "example_tool_config = \<lparr>allowed_tools = None, custom_tools = None\<rparr>"

text \<open>
  A session: the four components are set up, a factory setup fails in \<open>useFactory\<close>, a
  second one succeeds, the scheduler is set up, and everything is cleaned up.
\<close>

definition example_session :: "request list" where
  "example_session =
     [SetupLlm (\<lambda>args. Inr example_llm) example_llm_config,
      SetupStorage (\<lambda>args. Inr example_storage) example_storage_config,
      SetupMemory (\<lambda>args. Inr example_memory) example_memory_config,
      SetupTool (\<lambda>args. Inr example_tool) example_tool_config,
      SetupFactory (\<lambda>args. Inl (PyException ''ValueError'' ''max_workers must be positive''
                                    internal_traceback None)) example_scheduler_config,
      SetupFactory (\<lambda>args. Inr (example_submit, example_await)) example_scheduler_config,
      SetupScheduler (\<lambda>args. Inr example_scheduler) example_scheduler_config,
      GetStatus,
      Cleanup]"

section \<open>Properties of the backend choice\<close>

lemma next_prefix_first:
  "i < length ps \<Longrightarrow> startswith name (ps ! i) \<Longrightarrow> \<forall>j<i. \<not> startswith name (ps ! j)
     \<Longrightarrow> next_prefix ps name = Some (ps ! i)"
proof (induction ps arbitrary: i)
  case Nil
  then show ?case by simp
next
  case (Cons p ps)
  show ?case
  proof (cases i)
    case 0
    with Cons.prems show ?thesis by simp
  next
    case (Suc k)
    with Cons.prems have "\<not> startswith name p" by auto
    moreover from Suc Cons.prems have "next_prefix ps name = Some (ps ! k)"
      by (intro Cons.IH) auto
    ultimately show ?thesis using Suc by simp
  qed
qed

lemma next_prefix_none:
  "\<forall>p\<in>set ps. \<not> startswith name p \<Longrightarrow> next_prefix ps name = None"
  by (induction ps) auto

lemma next_prefix_some:
  "next_prefix ps name = Some p \<Longrightarrow> p \<in> set ps \<and> startswith name p"
  by (induction ps) (auto split: if_splits)

lemma map_of_first:
  "i < length al \<Longrightarrow> \<forall>j<i. fst (al ! j) \<noteq> fst (al ! i) \<Longrightarrow> map_of al (fst (al ! i)) = Some (snd (al ! i))"
proof (induction al arbitrary: i)
  case Nil
  then show ?case by simp
next
  case (Cons a al)
  show ?case
  proof (cases i)
    case 0
    then show ?thesis by (cases a) simp
  next
    case (Suc k)
    with Cons.prems have ne: "fst a \<noteq> fst (al ! k)" by auto
    from Suc Cons.prems have "map_of al (fst (al ! k)) = Some (snd (al ! k))"
      by (intro Cons.IH) auto
    with ne Suc show ?thesis by (cases a) auto
  qed
qed

lemma backend_ids_nonempty:
  "backend_ids_ok reg \<Longrightarrow> map_of reg b = Some c \<Longrightarrow> b \<noteq> []"
  by (auto simp: backend_ids_ok_def list_all_iff dest!: map_of_SomeD)

lemma prefix_entry_ok:
  "tables_ok reg pm \<Longrightarrow> (p, b) \<in> set pm \<Longrightarrow> p \<noteq> [] \<and> (\<exists>c. map_of reg b = Some c)"
  by (auto simp: tables_ok_def list_all_iff)

text \<open>
  C5. For every model name and every explicit backend hint that is not \<open>None\<close> and is a key
  of \<open>BACKEND_REGISTRY\<close>, the constructor takes the class registered under the hint,
  whatever prefix the model name starts with (name \<open>gpt-4\<close> with hint \<open>ollama\<close> gives the
  class of \<open>ollama\<close>). The registry is a parameter; its backend ids are non-empty strings.
\<close>

theorem explicit_hint_wins:
  assumes "backend_ids_ok BACKEND_REGISTRY"
    and "map_of BACKEND_REGISTRY hint = Some cls"
  shows "select_model_class BACKEND_REGISTRY MODEL_PREFIX_MAP HfNativeLLM name (Some hint) = Inr cls"
  using assms backend_ids_nonempty [OF assms] by (simp add: select_model_class_def)

theorem explicit_hint_wins_witness:
  "backend_ids_ok example_registry \<and> map_of example_registry ''ollama'' = Some ''OllamaLLM'' \<and>
   next_prefix (map fst example_prefix_map) (lower ''gpt-4'') = Some ''gpt'' \<and>
   map_of example_prefix_map ''gpt'' = Some ''openai'' \<and>
   select_model_class example_registry example_prefix_map ''HfNativeLLM'' ''gpt-4'' (Some ''ollama'')
     = Inr ''OllamaLLM''"
proof -
  have a: "backend_ids_ok example_registry" by code_simp
  have b: "map_of example_registry ''ollama'' = Some ''OllamaLLM''" by code_simp
  have c: "next_prefix (map fst example_prefix_map) (lower ''gpt-4'') = Some ''gpt''" by code_simp
  have d: "map_of example_prefix_map ''gpt'' = Some ''openai''" by code_simp
  from explicit_hint_wins [OF a b] a b c d show ?thesis by simp
qed

text \<open>
  C6. With consistent tables the choice of the class never raises. When the hint is absent or
  is not a registered backend id, the class is the one registered for the first prefix, in
  the order of \<open>MODEL_PREFIX_MAP\<close>, that the lowercased model name starts with; when no
  prefix fits, it is \<open>HfNativeLLM\<close>. An unregistered hint is ignored.
\<close>

theorem resolution_total:
  assumes ok: "tables_ok BACKEND_REGISTRY MODEL_PREFIX_MAP"
  shows "(\<exists>cls. select_model_class BACKEND_REGISTRY MODEL_PREFIX_MAP HfNativeLLM name hint_opt
              = Inr cls) \<and>
    ((hint_opt = None \<or> (\<exists>h. hint_opt = Some h \<and> map_of BACKEND_REGISTRY h = None)) \<longrightarrow>
      (\<forall>i < length MODEL_PREFIX_MAP.
          startswith (lower name) (fst (MODEL_PREFIX_MAP ! i)) \<and>
          (\<forall>j < i. \<not> startswith (lower name) (fst (MODEL_PREFIX_MAP ! j))) \<longrightarrow>
          (\<exists>cls. map_of BACKEND_REGISTRY (snd (MODEL_PREFIX_MAP ! i)) = Some cls \<and>
             select_model_class BACKEND_REGISTRY MODEL_PREFIX_MAP HfNativeLLM name hint_opt
               = Inr cls)) \<and>
      ((\<forall>i < length MODEL_PREFIX_MAP. \<not> startswith (lower name) (fst (MODEL_PREFIX_MAP ! i))) \<longrightarrow>
          select_model_class BACKEND_REGISTRY MODEL_PREFIX_MAP HfNativeLLM name hint_opt
            = Inr HfNativeLLM))"
proof (intro conjI impI allI)
  let ?sel = "select_model_class BACKEND_REGISTRY MODEL_PREFIX_MAP HfNativeLLM name hint_opt"
  let ?np = "next_prefix (map fst MODEL_PREFIX_MAP) (lower name)"
  show "\<exists>cls. ?sel = Inr cls"
  proof (cases ?np)
    case None
    then show ?thesis by (auto simp: select_model_class_def split: option.splits)
  next
    case (Some p)
    then have "p \<in> fst ` set MODEL_PREFIX_MAP" by (auto dest: next_prefix_some)
    then obtain b where mem: "(p, b) \<in> set MODEL_PREFIX_MAP" by auto
    then obtain b' where b': "map_of MODEL_PREFIX_MAP p = Some b'"
      by (metis weak_map_of_SomeI)
    then have "(p, b') \<in> set MODEL_PREFIX_MAP" by (rule map_of_SomeD)
    from prefix_entry_ok [OF ok this] obtain c where "p \<noteq> []" "map_of BACKEND_REGISTRY b' = Some c"
      by auto
    with Some b' show ?thesis by (auto simp: select_model_class_def split: option.splits)
  qed
next
  fix i
  assume fall: "hint_opt = None \<or> (\<exists>h. hint_opt = Some h \<and> map_of BACKEND_REGISTRY h = None)"
    and i: "i < length MODEL_PREFIX_MAP"
    and hit: "startswith (lower name) (fst (MODEL_PREFIX_MAP ! i)) \<and>
          (\<forall>j < i. \<not> startswith (lower name) (fst (MODEL_PREFIX_MAP ! j)))"
  let ?p = "fst (MODEL_PREFIX_MAP ! i)" and ?b = "snd (MODEL_PREFIX_MAP ! i)"
  from i hit have np: "next_prefix (map fst MODEL_PREFIX_MAP) (lower name) = Some ?p"
    using next_prefix_first [of i "map fst MODEL_PREFIX_MAP" "lower name"] by simp
  from hit have "\<forall>j<i. fst (MODEL_PREFIX_MAP ! j) \<noteq> ?p" by metis
  with i have mp: "map_of MODEL_PREFIX_MAP ?p = Some ?b" by (rule map_of_first)
  from i have "(?p, ?b) \<in> set MODEL_PREFIX_MAP" by simp
  from prefix_entry_ok [OF ok this] obtain c where c: "?p \<noteq> []" "map_of BACKEND_REGISTRY ?b = Some c"
    by auto
  from fall np mp c
  have "select_model_class BACKEND_REGISTRY MODEL_PREFIX_MAP HfNativeLLM name hint_opt = Inr c"
    by (auto simp: select_model_class_def)
  with c show "\<exists>cls. map_of BACKEND_REGISTRY ?b = Some cls \<and>
             select_model_class BACKEND_REGISTRY MODEL_PREFIX_MAP HfNativeLLM name hint_opt
               = Inr cls" by simp
next
  assume fall: "hint_opt = None \<or> (\<exists>h. hint_opt = Some h \<and> map_of BACKEND_REGISTRY h = None)"
    and none: "\<forall>i < length MODEL_PREFIX_MAP. \<not> startswith (lower name) (fst (MODEL_PREFIX_MAP ! i))"
  have "\<forall>p\<in>set (map fst MODEL_PREFIX_MAP). \<not> startswith (lower name) p"
  proof
    fix p assume "p \<in> set (map fst MODEL_PREFIX_MAP)"
    then obtain i where "i < length MODEL_PREFIX_MAP" "p = fst (MODEL_PREFIX_MAP ! i)"
      by (auto simp: in_set_conv_nth)
    with none show "\<not> startswith (lower name) p" by simp
  qed
  then have "next_prefix (map fst MODEL_PREFIX_MAP) (lower name) = None"
    by (rule next_prefix_none)
  with fall show "select_model_class BACKEND_REGISTRY MODEL_PREFIX_MAP HfNativeLLM name hint_opt
            = Inr HfNativeLLM"
    by (auto simp: select_model_class_def)
qed

theorem resolution_total_witness:
  "tables_ok example_registry example_prefix_map \<and>
   map_of example_registry ''default'' = None \<and>
   select_model_class example_registry example_prefix_map ''HfNativeLLM'' ''GPT-4'' (Some ''default'')
     = Inr ''GPTLLM'' \<and>
   select_model_class example_registry example_prefix_map ''HfNativeLLM'' ''llama-3'' (Some ''default'')
     = Inr ''HfNativeLLM''"
proof -
  have t: "tables_ok example_registry example_prefix_map" by code_simp
  have f: "map_of example_registry ''default'' = None" by code_simp
  have fall: "Some ''default'' = None \<or>
      (\<exists>h. Some ''default'' = Some h \<and> map_of example_registry h = None)"
    using f by simp
  have len: "(1::nat) < length example_prefix_map" by (simp add: example_prefix_map_def)
  have e1: "example_prefix_map ! 1 = (''gpt'', ''openai'')" by (simp add: example_prefix_map_def)
  have e0: "example_prefix_map ! 0 = (''claude'', ''anthropic'')"
    by (simp add: example_prefix_map_def)
  have s1: "startswith (lower ''GPT-4'') ''gpt''" by code_simp
  have s0: "\<not> startswith (lower ''GPT-4'') ''claude''" by code_simp
  have hit: "startswith (lower ''GPT-4'') (fst (example_prefix_map ! 1)) \<and>
      (\<forall>j<1. \<not> startswith (lower ''GPT-4'') (fst (example_prefix_map ! j)))"
    using s1 s0 e1 e0 by simp
  have cls: "map_of example_registry (snd (example_prefix_map ! 1)) = Some ''GPTLLM''"
    unfolding e1 by code_simp
  note R = resolution_total [OF t, of "''HfNativeLLM''" _ "Some ''default''"]
  from R [of "''GPT-4''"] fall len hit
  have "\<exists>cls. map_of example_registry (snd (example_prefix_map ! 1)) = Some cls \<and>
      select_model_class example_registry example_prefix_map ''HfNativeLLM'' ''GPT-4''
        (Some ''default'') = Inr cls"
    by blast
  with cls have g: "select_model_class example_registry example_prefix_map ''HfNativeLLM''
      ''GPT-4'' (Some ''default'') = Inr ''GPTLLM''"
    by simp
  have n0: "\<not> startswith (lower ''llama-3'') ''claude''" by code_simp
  have n1: "\<not> startswith (lower ''llama-3'') ''gpt''" by code_simp
  have n2: "\<not> startswith (lower ''llama-3'') ''ollama''" by code_simp
  have none: "\<forall>i < length example_prefix_map.
      \<not> startswith (lower ''llama-3'') (fst (example_prefix_map ! i))"
  proof (intro allI impI)
    fix i assume "i < length example_prefix_map"
    then have "i = 0 \<or> i = 1 \<or> i = 2" by (auto simp: example_prefix_map_def)
    with n0 n1 n2 show "\<not> startswith (lower ''llama-3'') (fst (example_prefix_map ! i))"
      by (auto simp: example_prefix_map_def)
  qed
  from R [of "''llama-3''"] fall none
  have l: "select_model_class example_registry example_prefix_map ''HfNativeLLM''
      ''llama-3'' (Some ''default'') = Inr ''HfNativeLLM''"
    by blast
  from t f g l show ?thesis by simp
qed

section \<open>Properties of the registry\<close>

subsection \<open>Dict operations and the cleanup loop\<close>


lemma falsy_is_None: "\<not> truthy v \<longleftrightarrow> v = PyNone"
  by (cases v) simp_all

lemma getitem_Inr: "getitem d k = Inr v \<longleftrightarrow> map_of d k = Some v"
  by (simp add: getitem_def split: option.splits)

lemma getitem_Inl: "getitem d k = Inl e \<longleftrightarrow> map_of d k = None \<and> e = KeyError k"
  by (auto simp: getitem_def split: option.splits)

lemma map_of_get_status:
  "map_of (get_status d) k =
     map_option (\<lambda>v. if truthy v then ''active'' else ''inactive'') (map_of d k)"
  by (induction d) (auto simp: get_status_def)

lemma keys_get_status: "map fst (get_status d) = map fst d"
  by (induction d) (auto simp: get_status_def)

lemma keys_update_present:
  "map_of d k = Some v \<Longrightarrow> map fst (AList.update k w d) = map fst d"
  by (simp add: update_keys) (metis domI dom_map_of_conv_image_fst set_map)

lemma map_of_update_other: "k' \<noteq> k \<Longrightarrow> map_of (AList.update k v d) k' = map_of d k'"
  by (simp add: update_conv')

lemma map_of_update_same: "map_of (AList.update k v d) k = Some v"
  by (simp add: update_conv')

lemma cleanup_loop_KeyError:
  "getitem d c = Inl e \<Longrightarrow> cleanup_loop (c # cs) d = (Some e, d)"
  by simp

lemma cleanup_loop_skip:
  "getitem d c = Inr v \<Longrightarrow> \<not> truthy v \<Longrightarrow> cleanup_loop (c # cs) d = cleanup_loop cs d"
  by simp

lemma cleanup_loop_raise:
  "getitem d c = Inr v \<Longrightarrow> truthy v \<Longrightarrow> call_cleanup_if_present v = Some e
     \<Longrightarrow> cleanup_loop (c # cs) d = (Some e, d)"
  by simp

lemma cleanup_loop_reset:
  "getitem d c = Inr v \<Longrightarrow> truthy v \<Longrightarrow> call_cleanup_if_present v = None
     \<Longrightarrow> cleanup_loop (c # cs) d = cleanup_loop cs (AList.update c PyNone d)"
  by simp

lemma cleanup_loop_keys: "map fst (snd (cleanup_loop cs d)) = map fst d"
proof (induction cs arbitrary: d)
  case Nil
  show ?case by simp
next
  case (Cons c cs)
  show ?case
  proof (cases "getitem d c")
    case (Inl e)
    then show ?thesis by simp
  next
    case (Inr v)
    then have "map_of d c = Some v" by (simp add: getitem_Inr)
    then have k: "map fst (AList.update c PyNone d) = map fst d" by (rule keys_update_present)
    show ?thesis
    proof (cases "truthy v")
      case False
      with Inr Cons.IH [of d] show ?thesis by simp
    next
      case True
      show ?thesis
      proof (cases "call_cleanup_if_present v")
        case None
        with Inr True Cons.IH [of "AList.update c PyNone d"] k show ?thesis by simp
      next
        case (Some e)
        with Inr True show ?thesis by simp
      qed
    qed
  qed
qed

lemma reset_upto_Nil: "reset_upto [] d d"
  by (simp add: reset_upto_def)

lemma reset_upto_Cons:
  assumes r: "reset_upto pre d1 d'"
    and c: "map_of d1 c = Some PyNone"
    and other: "\<And>k. k \<noteq> c \<Longrightarrow> map_of d1 k = map_of d k"
  shows "reset_upto (c # pre) d d'"
  unfolding reset_upto_def
proof (intro conjI ballI allI impI)
  fix k assume "k \<in> set (c # pre)"
  show "map_of d' k = Some PyNone"
  proof (cases "k \<in> set pre")
    case True
    with r show ?thesis by (simp add: reset_upto_def)
  next
    case False
    with \<open>k \<in> set (c # pre)\<close> have "k = c" by simp
    with False r c show ?thesis by (simp add: reset_upto_def)
  qed
next
  fix k assume "k \<notin> set (c # pre)"
  then have "k \<noteq> c" "k \<notin> set pre" by simp_all
  with r other show "map_of d' k = map_of d k" by (simp add: reset_upto_def)
qed

lemma stopped_at_stop:
  assumes st: "cleanup_loop (c # cs) d = (Some e, d)"
  shows "stopped_at [] (c # cs) (c # cs) d"
  unfolding stopped_at_def
proof (intro conjI)
  show "c # cs = [] @ (c # cs)" by simp
  show "fst (cleanup_loop (c # cs) d) = None \<longleftrightarrow> c # cs = []"
    by (simp only: st) simp
  show "reset_upto [] d (snd (cleanup_loop (c # cs) d))"
    by (simp only: st snd_conv reset_upto_Nil)
qed

lemma stopped_at_continue:
  assumes eq: "cleanup_loop (c # cs) d = cleanup_loop cs d1"
    and c: "map_of d1 c = Some PyNone"
    and other: "\<And>k. k \<noteq> c \<Longrightarrow> map_of d1 k = map_of d k"
    and p: "stopped_at pre post cs d1"
  shows "stopped_at (c # pre) post (c # cs) d"
  unfolding stopped_at_def
proof (intro conjI)
  from p show "c # cs = (c # pre) @ post" by (simp add: stopped_at_def)
  from p have "fst (cleanup_loop cs d1) = None \<longleftrightarrow> post = []"
    unfolding stopped_at_def by (elim conjE)
  then show "fst (cleanup_loop (c # cs) d) = None \<longleftrightarrow> post = []" by (simp only: eq)
  from p have "reset_upto pre d1 (snd (cleanup_loop cs d1))"
    unfolding stopped_at_def by (elim conjE)
  then have "reset_upto (c # pre) d (snd (cleanup_loop cs d1))"
    using c other by (rule reset_upto_Cons)
  then show "reset_upto (c # pre) d (snd (cleanup_loop (c # cs) d))" by (simp only: eq)
qed

lemma cleanup_loop_prefix: "\<exists>pre post. stopped_at pre post cs d"
proof (induction cs arbitrary: d)
  case Nil
  have "stopped_at [] [] [] d" by (simp add: stopped_at_def reset_upto_Nil)
  then show ?case by blast
next
  case (Cons c cs)
  have continue: "?case"
    if eq: "cleanup_loop (c # cs) d = cleanup_loop cs d1"
      and c: "map_of d1 c = Some PyNone"
      and other: "\<And>k. k \<noteq> c \<Longrightarrow> map_of d1 k = map_of d k" for d1
  proof -
    from Cons.IH [of d1] obtain pre post where "stopped_at pre post cs d1" by blast
    with eq c other have "stopped_at (c # pre) post (c # cs) d" by (rule stopped_at_continue)
    then show ?thesis by blast
  qed
  show ?case
  proof (cases "getitem d c")
    case (Inl e)
    then have "cleanup_loop (c # cs) d = (Some e, d)" by (rule cleanup_loop_KeyError)
    then have "stopped_at [] (c # cs) (c # cs) d" by (rule stopped_at_stop)
    then show ?thesis by blast
  next
    case (Inr v)
    then have v: "map_of d c = Some v" by (simp add: getitem_Inr)
    show ?thesis
    proof (cases "truthy v")
      case False
      with v have n: "map_of d c = Some PyNone" by (simp add: falsy_is_None)
      from Inr False have "cleanup_loop (c # cs) d = cleanup_loop cs d"
        by (rule cleanup_loop_skip)
      then show ?thesis using n by (rule continue) (rule refl)
    next
      case True
      show ?thesis
      proof (cases "call_cleanup_if_present v")
        case (Some e)
        with Inr True have "cleanup_loop (c # cs) d = (Some e, d)"
          by (rule cleanup_loop_raise)
        then have "stopped_at [] (c # cs) (c # cs) d" by (rule stopped_at_stop)
        then show ?thesis by blast
      next
        case None
        with Inr True
        have "cleanup_loop (c # cs) d = cleanup_loop cs (AList.update c PyNone d)"
          by (rule cleanup_loop_reset)
        then show ?thesis
        proof (rule continue)
          show "map_of (AList.update c PyNone d) c = Some PyNone" by (rule map_of_update_same)
        next
          fix k assume "k \<noteq> c"
          then show "map_of (AList.update c PyNone d) k = map_of d k" by (rule map_of_update_other)
        qed
      qed
    qed
  qed
qed

declare cleanup_loop.simps [simp del]

text \<open>The ways \<open>cleanup_components\<close> ends.\<close>

lemma cleanup_components_cases:
  obtains (no_scheduler) e where "getitem d ''scheduler'' = Inl e"
      "cleanup_components d =
         (Inl (except_Exception e (HTTPException 500
                 (JStr (''Failed to cleanup components: '' @ exc_msg e)))), d)"
  | (stop_failed) v e where "getitem d ''scheduler'' = Inr v" "call_stop v = Some e"
      "cleanup_components d =
         (Inl (except_Exception e (HTTPException 500
                 (JStr (''Failed to cleanup components: '' @ exc_msg e)))), d)"
  | (loop_failed) v e d' where "getitem d ''scheduler'' = Inr v" "call_stop v = None"
      "cleanup_loop [''tool'', ''memory'', ''storage'', ''llm'']
         (AList.update ''scheduler'' PyNone d) = (Some e, d')"
      "cleanup_components d =
         (Inl (except_Exception e (HTTPException 500
                 (JStr (''Failed to cleanup components: '' @ exc_msg e)))), d')"
  | (cleaned) v d' where "getitem d ''scheduler'' = Inr v" "call_stop v = None"
      "cleanup_loop [''tool'', ''memory'', ''storage'', ''llm'']
         (AList.update ''scheduler'' PyNone d) = (None, d')"
      "cleanup_components d = (Inr (success ''All components cleaned up''), d')"
proof (cases "getitem d ''scheduler''")
  case (Inl e)
  then show ?thesis by (intro no_scheduler [of e]) (simp_all add: cleanup_components_def)
next
  case (Inr v)
  show ?thesis
  proof (cases "call_stop v")
    case (Some e)
    with Inr show ?thesis by (intro stop_failed [of v e]) (simp_all add: cleanup_components_def)
  next
    case None
    note st = this
    obtain r d' where l: "cleanup_loop [''tool'', ''memory'', ''storage'', ''llm'']
         (AList.update ''scheduler'' PyNone d) = (r, d')"
      by (cases "cleanup_loop [''tool'', ''memory'', ''storage'', ''llm'']
         (AList.update ''scheduler'' PyNone d)")
    show ?thesis
    proof (cases r)
      case None
      with Inr st l show ?thesis
        by (intro cleaned [of v d']) (simp_all add: cleanup_components_def)
    next
      case (Some e)
      with Inr st l show ?thesis
        by (intro loop_failed [of v e d']) (simp_all add: cleanup_components_def)
    qed
  qed
qed

subsection \<open>Cleanup\<close>


text \<open>
  C1, as stated, fails. With all five slots active and a tool manager whose \<open>cleanup()\<close>
  raises, \<open>cleanup_components\<close> stops the scheduler, resets its slot, and ends at the tool
  manager with a 500 error: memory, storage and llm are never released, and the following
  \<open>get_status\<close> reports llm, storage, memory and tool active.
\<close>

theorem cleanup_components_counterexample:
  "fst (cleanup_components busy_registry) =
     Inl (HTTPException 500 (JStr ''Failed to cleanup components: tool busy'')) \<and>
   get_status (snd (cleanup_components busy_registry)) =
     [(''llm'', ''active''), (''storage'', ''active''), (''memory'', ''active''),
      (''tool'', ''active''), (''scheduler'', ''inactive'')]"
  by code_simp

lemma release_cong: "map_of d1 k = map_of d k \<Longrightarrow> release d1 k = release d k"
  by (simp add: release_def getitem_def)

lemma cleanup_loop_step_fail:
  assumes r: "release d c = Some e" and c: "c \<noteq> ''scheduler''"
  shows "cleanup_loop (c # cs) d = (Some e, d)"
proof (cases "getitem d c")
  case (Inl e')
  with r have "e' = e" by (simp add: release_def)
  with Inl show ?thesis by (simp add: cleanup_loop_KeyError)
next
  case (Inr v)
  with r c have "truthy v" "call_cleanup_if_present v = Some e"
    by (simp_all add: release_def split: if_splits)
  with Inr show ?thesis by (rule cleanup_loop_raise)
qed

lemma cleanup_loop_step_ok:
  assumes r: "release d c = None" and c: "c \<noteq> ''scheduler''"
  shows "\<exists>d1. cleanup_loop (c # cs) d = cleanup_loop cs d1 \<and> step_to c d d1"
proof (cases "getitem d c")
  case (Inl e')
  with r show ?thesis by (simp add: release_def)
next
  case (Inr v)
  then have v: "map_of d c = Some v" by (simp add: getitem_Inr)
  show ?thesis
  proof (cases "truthy v")
    case False
    with v have "step_to c d d" by (simp add: falsy_is_None step_to_def)
    moreover from Inr False have "cleanup_loop (c # cs) d = cleanup_loop cs d"
      by (rule cleanup_loop_skip)
    ultimately show ?thesis by blast
  next
    case True
    with r c Inr have "call_cleanup_if_present v = None" by (simp add: release_def)
    with Inr True
    have "cleanup_loop (c # cs) d = cleanup_loop cs (AList.update c PyNone d)"
      by (rule cleanup_loop_reset)
    moreover have "step_to c d (AList.update c PyNone d)"
      by (simp add: step_to_def map_of_update_same map_of_update_other)
    ultimately show ?thesis by blast
  qed
qed

lemma cleanup_loop_first_failure:
  assumes "distinct (pre @ [k])" "''scheduler'' \<notin> set (pre @ [k])"
    and "\<forall>j\<in>set pre. release d j = None" "release d k = Some e"
  shows "fst (cleanup_loop (pre @ k # post) d) = Some e \<and>
    reset_upto pre d (snd (cleanup_loop (pre @ k # post) d))"
  using assms
proof (induction pre arbitrary: d)
  case Nil
  then have "cleanup_loop (k # post) d = (Some e, d)" by (intro cleanup_loop_step_fail) simp_all
  then show ?case by (simp add: reset_upto_Nil)
next
  case (Cons c pre)
  from Cons.prems have rc: "release d c = None" and c: "c \<noteq> ''scheduler''" by auto
  from cleanup_loop_step_ok [OF rc c, of "pre @ k # post"]
  obtain d1 where eq: "cleanup_loop (c # pre @ k # post) d = cleanup_loop (pre @ k # post) d1"
    and st: "step_to c d d1"
    by blast
  from st have d1: "map_of d1 c = Some PyNone" "\<And>j. j \<noteq> c \<Longrightarrow> map_of d1 j = map_of d j"
    by (simp_all add: step_to_def)
  have same: "release d1 j = release d j" if "j \<noteq> c" for j
    using that by (intro release_cong d1(2))
  from Cons.prems have "\<forall>j\<in>set pre. j \<noteq> c" "k \<noteq> c" by auto
  with Cons.prems same have "\<forall>j\<in>set pre. release d1 j = None" "release d1 k = Some e"
    by simp_all
  moreover from Cons.prems have "distinct (pre @ [k])" "''scheduler'' \<notin> set (pre @ [k])"
    by simp_all
  ultimately have IH: "fst (cleanup_loop (pre @ k # post) d1) = Some e \<and>
      reset_upto pre d1 (snd (cleanup_loop (pre @ k # post) d1))"
    by (intro Cons.IH)
  from IH have "reset_upto pre d1 (snd (cleanup_loop (pre @ k # post) d1))" by (elim conjE)
  then have "reset_upto (c # pre) d (snd (cleanup_loop (pre @ k # post) d1))"
    using d1 by (rule reset_upto_Cons)
  with IH eq show ?case by simp
qed

lemma cleanup_loop_no_failure:
  assumes "distinct cs" "''scheduler'' \<notin> set cs" "\<forall>j\<in>set cs. release d j = None"
  shows "fst (cleanup_loop cs d) = None \<and> reset_upto cs d (snd (cleanup_loop cs d))"
  using assms
proof (induction cs arbitrary: d)
  case Nil
  show ?case by (simp add: cleanup_loop.simps reset_upto_Nil)
next
  case (Cons c cs)
  from Cons.prems have rc: "release d c = None" and c: "c \<noteq> ''scheduler''" by auto
  from cleanup_loop_step_ok [OF rc c, of cs]
  obtain d1 where eq: "cleanup_loop (c # cs) d = cleanup_loop cs d1" and st: "step_to c d d1"
    by blast
  from st have d1: "map_of d1 c = Some PyNone" "\<And>j. j \<noteq> c \<Longrightarrow> map_of d1 j = map_of d j"
    by (simp_all add: step_to_def)
  have same: "release d1 j = release d j" if "j \<noteq> c" for j
    using that by (intro release_cong d1(2))
  from Cons.prems have "\<forall>j\<in>set cs. j \<noteq> c" by auto
  with Cons.prems same have "\<forall>j\<in>set cs. release d1 j = None" by simp
  moreover from Cons.prems have "distinct cs" "''scheduler'' \<notin> set cs" by simp_all
  ultimately have IH: "fst (cleanup_loop cs d1) = None \<and> reset_upto cs d1 (snd (cleanup_loop cs d1))"
    by (intro Cons.IH)
  from IH have "reset_upto cs d1 (snd (cleanup_loop cs d1))" by (elim conjE)
  then have "reset_upto (c # cs) d (snd (cleanup_loop cs d1))"
    using d1 by (rule reset_upto_Cons)
  with IH eq show ?case by simp
qed

text \<open>The registry in which the loop starts, once the scheduler is stopped.\<close>

lemma cleanup_components_after_stop:
  assumes g: "getitem d ''scheduler'' = Inr v" and s: "call_stop v = None"
  shows "cleanup_components d =
     (case cleanup_loop [''tool'', ''memory'', ''storage'', ''llm'']
             (AList.update ''scheduler'' PyNone d) of
        (Some e, d') \<Rightarrow>
          (Inl (except_Exception e (HTTPException 500
                  (JStr (''Failed to cleanup components: '' @ exc_msg e)))), d')
      | (None, d') \<Rightarrow> (Inr (success ''All components cleaned up''), d'))"
  using g s by (simp add: cleanup_components_def split: prod.splits option.splits)

text \<open>
  C1, amended. Let the scheduler slot hold a scheduler. When neither stopping the scheduler
  nor the release of any component raises, \<open>cleanup_components\<close> returns normally, the
  slots scheduler, tool, memory, storage and llm hold \<open>None\<close>, every other key is as it was
  and \<open>get_status\<close> reports the five slots inactive. When the release of the slot \<open>k\<close> is
  the first, in the order scheduler, tool, memory, storage, llm, that raises, the cleanup
  ends there: the exception \<open>e\<close> it raised is reported as the 500 error
  "Failed to cleanup components" with the message of \<open>e\<close> (an exception outside
  \<open>Exception\<close> leaves the endpoint as it is), the slots before \<open>k\<close> hold \<open>None\<close>, and
  the slot \<open>k\<close>, every later slot and every other key keep their values.
\<close>

theorem cleanup_components_stops_at_first_failure:
  assumes sched: "map_of d ''scheduler'' = Some (Component scheduler)"
  shows "((\<forall>k\<in>set cleanup_order. release d k = None) \<longrightarrow>
           fst (cleanup_components d) = Inr (success ''All components cleaned up'') \<and>
           reset_upto cleanup_order d (snd (cleanup_components d)) \<and>
           (\<forall>k\<in>set core_slots.
              map_of (get_status (snd (cleanup_components d))) k = Some ''inactive'')) \<and>
         (\<forall>pre k post e.
            cleanup_order = pre @ k # post \<and> (\<forall>j\<in>set pre. release d j = None) \<and>
            release d k = Some e \<longrightarrow>
              fst (cleanup_components d) =
                Inl (if is_Exception e
                     then HTTPException 500 (JStr (''Failed to cleanup components: '' @ exc_msg e))
                     else Uncaught e) \<and>
              reset_upto pre d (snd (cleanup_components d)))"
proof (intro conjI impI allI)
  let ?cs = "[''tool'', ''memory'', ''storage'', ''llm'']"
  let ?d1 = "AList.update ''scheduler'' PyNone d"
  assume all: "\<forall>k\<in>set cleanup_order. release d k = None"
  from sched have g: "getitem d ''scheduler'' = Inr (Component scheduler)"
    by (simp add: getitem_def)
  from all have "release d ''scheduler'' = None" by (simp add: cleanup_order_def)
  with g have s: "call_stop (Component scheduler) = None" by (simp add: release_def)
  have "\<forall>j\<in>set ?cs. release ?d1 j = release d j"
    by (auto intro!: release_cong simp: map_of_update_other)
  with all have "\<forall>j\<in>set ?cs. release ?d1 j = None" by (simp add: cleanup_order_def)
  then have l: "fst (cleanup_loop ?cs ?d1) = None \<and>
      reset_upto ?cs ?d1 (snd (cleanup_loop ?cs ?d1))"
    by (intro cleanup_loop_no_failure) simp_all
  then obtain d' where d': "cleanup_loop ?cs ?d1 = (None, d')" "reset_upto ?cs ?d1 d'"
    by (cases "cleanup_loop ?cs ?d1") simp
  from cleanup_components_after_stop [OF g s] d'(1)
  have c: "cleanup_components d = (Inr (success ''All components cleaned up''), d')" by simp
  from d'(2) have r: "reset_upto (''scheduler'' # ?cs) d d'"
    by (rule reset_upto_Cons) (simp_all add: map_of_update_same map_of_update_other)
  from c show "fst (cleanup_components d) = Inr (success ''All components cleaned up'')" by simp
  from c r show "reset_upto cleanup_order d (snd (cleanup_components d))"
    by (simp add: cleanup_order_def)
  show "\<forall>k\<in>set core_slots. map_of (get_status (snd (cleanup_components d))) k = Some ''inactive''"
  proof
    fix k assume "k \<in> set core_slots"
    then have "k \<in> set (''scheduler'' # ?cs)" by (auto simp: core_slots_def)
    with r have "map_of d' k = Some PyNone" unfolding reset_upto_def by blast
    with c show "map_of (get_status (snd (cleanup_components d))) k = Some ''inactive''"
      by (simp add: map_of_get_status)
  qed
next
  fix pre k post e
  let ?cs = "[''tool'', ''memory'', ''storage'', ''llm'']"
  let ?d1 = "AList.update ''scheduler'' PyNone d"
  let ?err = "Inl (if is_Exception e
                     then HTTPException 500 (JStr (''Failed to cleanup components: '' @ exc_msg e))
                     else Uncaught e) :: error + json"
  assume a: "cleanup_order = pre @ k # post \<and> (\<forall>j\<in>set pre. release d j = None) \<and>
            release d k = Some e"
  from sched have g: "getitem d ''scheduler'' = Inr (Component scheduler)"
    by (simp add: getitem_def)
  have "fst (cleanup_components d) = ?err \<and> reset_upto pre d (snd (cleanup_components d))"
  proof (cases pre)
    case Nil
    with a have k: "k = ''scheduler''" by (simp add: cleanup_order_def)
    with a g have "call_stop (Component scheduler) = Some e" by (simp add: release_def)
    with g have "cleanup_components d = (?err, d)"
      by (simp add: cleanup_components_def except_Exception_def)
    with Nil show ?thesis by (simp add: reset_upto_Nil)
  next
    case (Cons c pre')
    with a have c: "c = ''scheduler''" and rest: "?cs = pre' @ k # post"
      by (simp_all add: cleanup_order_def)
    from a Cons c have "release d ''scheduler'' = None" by simp
    with g have s: "call_stop (Component scheduler) = None" by (simp add: release_def)
    have "''scheduler'' \<notin> set ?cs" "distinct ?cs" by simp_all
    then have "''scheduler'' \<notin> set (pre' @ k # post)" "distinct (pre' @ k # post)"
      unfolding rest by this+
    then have ns: "''scheduler'' \<notin> set (pre' @ [k])" and dist: "distinct (pre' @ [k])"
      by simp_all
    have same: "release ?d1 j = release d j" if "j \<in> set (pre' @ [k])" for j
    proof -
      from that ns have "j \<noteq> ''scheduler''" by blast
      then show ?thesis by (intro release_cong map_of_update_other)
    qed
    from a Cons have "\<forall>j\<in>set pre'. release d j = None" "release d k = Some e" by simp_all
    with same have "\<forall>j\<in>set pre'. release ?d1 j = None" "release ?d1 k = Some e" by simp_all
    with dist ns have "fst (cleanup_loop (pre' @ k # post) ?d1) = Some e \<and>
        reset_upto pre' ?d1 (snd (cleanup_loop (pre' @ k # post) ?d1))"
      by (intro cleanup_loop_first_failure)
    then obtain d' where d': "cleanup_loop ?cs ?d1 = (Some e, d')" "reset_upto pre' ?d1 d'"
      unfolding rest [symmetric] by (cases "cleanup_loop ?cs ?d1") simp
    from cleanup_components_after_stop [OF g s] d'(1)
    have r: "cleanup_components d = (?err, d')" by (simp add: except_Exception_def)
    from d'(2) have "reset_upto (''scheduler'' # pre') d d'"
      by (rule reset_upto_Cons) (simp_all add: map_of_update_same map_of_update_other)
    with r Cons c show ?thesis by simp
  qed
  then show "fst (cleanup_components d) = ?err" "reset_upto pre d (snd (cleanup_components d))"
    by simp_all
qed

theorem cleanup_components_stops_at_first_failure_witness:
  "map_of busy_registry ''scheduler'' = Some (Component example_scheduler) \<and>
   release busy_registry ''scheduler'' = None \<and>
   release busy_registry ''tool'' =
     Some (PyException ''RuntimeError'' ''tool busy'' internal_traceback None) \<and>
   fst (cleanup_components busy_registry) =
     Inl (HTTPException 500 (JStr ''Failed to cleanup components: tool busy'')) \<and>
   reset_upto [''scheduler''] busy_registry (snd (cleanup_components busy_registry)) \<and>
   map_of factory_registry ''scheduler'' = Some (Component example_scheduler) \<and>
   list_all (\<lambda>k. release factory_registry k = None) cleanup_order \<and>
   fst (cleanup_components factory_registry) = Inr (success ''All components cleaned up'') \<and>
   list_all (\<lambda>k. map_of (get_status (snd (cleanup_components factory_registry))) k
                  = Some ''inactive'') core_slots"
proof -
  let ?e = "PyException ''RuntimeError'' ''tool busy'' internal_traceback None"
  have s: "map_of busy_registry ''scheduler'' = Some (Component example_scheduler)"
    by (simp add: busy_registry_def)
  have r0: "release busy_registry ''scheduler'' = None" by code_simp
  have r1: "release busy_registry ''tool'' = Some ?e" by code_simp
  have o: "cleanup_order = [''scheduler''] @ ''tool'' # [''memory'', ''storage'', ''llm'']"
    by (simp add: cleanup_order_def)
  have p: "cleanup_order = [''scheduler''] @ ''tool'' # [''memory'', ''storage'', ''llm''] \<and>
      (\<forall>j\<in>set [''scheduler'']. release busy_registry j = None) \<and>
      release busy_registry ''tool'' = Some ?e"
    using o r0 r1 by simp
  have "fst (cleanup_components busy_registry) =
      Inl (if is_Exception ?e
           then HTTPException 500 (JStr (''Failed to cleanup components: '' @ exc_msg ?e))
           else Uncaught ?e) \<and>
    reset_upto [''scheduler''] busy_registry (snd (cleanup_components busy_registry))"
    using p by (rule cleanup_components_stops_at_first_failure
        [OF s, THEN conjunct2, rule_format])
  then have b: "fst (cleanup_components busy_registry) =
       Inl (HTTPException 500 (JStr ''Failed to cleanup components: tool busy''))"
    and c: "reset_upto [''scheduler''] busy_registry (snd (cleanup_components busy_registry))"
    by simp_all
  have s': "map_of factory_registry ''scheduler'' = Some (Component example_scheduler)"
    by (simp add: factory_registry_def)
  have all: "\<forall>k\<in>set cleanup_order. release factory_registry k = None" by code_simp
  note ok = cleanup_components_stops_at_first_failure [OF s', THEN conjunct1, THEN mp, OF all]
  from ok
  have d: "fst (cleanup_components factory_registry) = Inr (success ''All components cleaned up'')"
    by (rule conjunct1)
  from ok have f: "\<forall>k\<in>set core_slots.
      map_of (get_status (snd (cleanup_components factory_registry))) k = Some ''inactive''"
    by (elim conjE)
  from all have all': "list_all (\<lambda>k. release factory_registry k = None) cleanup_order"
    by (simp only: list_all_iff)
  from f have f': "list_all (\<lambda>k. map_of (get_status (snd (cleanup_components factory_registry))) k
                  = Some ''inactive'') core_slots"
    by (simp only: list_all_iff)
  from s r0 r1 b c s' all' d f' show ?thesis by (intro conjI)
qed

lemma cleanup_components_reset:
  "\<exists>pre post. cleanup_order = pre @ post \<and> reset_upto pre d (snd (cleanup_components d))"
proof (cases d rule: cleanup_components_cases)
  case (no_scheduler e)
  have "cleanup_order = [] @ cleanup_order" by simp
  moreover have "reset_upto [] d (snd (cleanup_components d))"
    by (simp only: no_scheduler(2) snd_conv reset_upto_Nil)
  ultimately show ?thesis by blast
next
  case (stop_failed v e)
  have "cleanup_order = [] @ cleanup_order" by simp
  moreover have "reset_upto [] d (snd (cleanup_components d))"
    by (simp only: stop_failed(3) snd_conv reset_upto_Nil)
  ultimately show ?thesis by blast
next
  case (loop_failed v e d')
  let ?d1 = "AList.update ''scheduler'' PyNone d"
  obtain pre post where p: "stopped_at pre post [''tool'', ''memory'', ''storage'', ''llm''] ?d1"
    using cleanup_loop_prefix by blast
  from p loop_failed(3) have r: "reset_upto pre ?d1 d'" by (simp add: stopped_at_def)
  from p have "[''tool'', ''memory'', ''storage'', ''llm''] = pre @ post"
    by (simp add: stopped_at_def)
  then have split: "cleanup_order = (''scheduler'' # pre) @ post"
    by (simp add: cleanup_order_def)
  from r have "reset_upto (''scheduler'' # pre) d d'"
    by (rule reset_upto_Cons) (simp_all add: map_of_update_same map_of_update_other)
  then have "reset_upto (''scheduler'' # pre) d (snd (cleanup_components d))"
    by (simp only: loop_failed(4) snd_conv)
  with split show ?thesis by blast
next
  case (cleaned v d')
  let ?d1 = "AList.update ''scheduler'' PyNone d"
  obtain pre post where p: "stopped_at pre post [''tool'', ''memory'', ''storage'', ''llm''] ?d1"
    using cleanup_loop_prefix by blast
  from p cleaned(3) have r: "reset_upto pre ?d1 d'" by (simp add: stopped_at_def)
  from p have "[''tool'', ''memory'', ''storage'', ''llm''] = pre @ post"
    by (simp add: stopped_at_def)
  then have split: "cleanup_order = (''scheduler'' # pre) @ post"
    by (simp add: cleanup_order_def)
  from r have "reset_upto (''scheduler'' # pre) d d'"
    by (rule reset_upto_Cons) (simp_all add: map_of_update_same map_of_update_other)
  then have "reset_upto (''scheduler'' # pre) d (snd (cleanup_components d))"
    by (simp only: cleaned(4) snd_conv)
  with split show ?thesis by blast
qed

lemma cleanup_components_other_keys:
  assumes "k \<notin> set cleanup_order"
  shows "map_of (snd (cleanup_components d)) k = map_of d k"
proof -
  obtain pre post where p: "cleanup_order = pre @ post"
    "reset_upto pre d (snd (cleanup_components d))"
    using cleanup_components_reset by blast
  from assms have "k \<notin> set (pre @ post)" unfolding p(1) .
  then have "k \<notin> set pre" by simp
  with p(2) show ?thesis unfolding reset_upto_def by blast
qed

lemma factory_missing_iff: "factory_missing d \<longleftrightarrow> \<not> slot_active d ''factory''"
  by (simp add: factory_missing_def slot_active_def split: option.splits)

text \<open>
  C9. \<open>cleanup_components\<close> never touches the key \<open>factory\<close>: when the registry holds the
  factory's dict, it holds the same submit and await handles after the cleanup, however the
  cleanup ended; the following \<open>get_status\<close> reports \<open>factory\<close> active, and the following
  \<open>submit_agent\<close> passes the check for the factory (it does not raise the 400 error) and
  calls the stored submit handle.
\<close>

theorem cleanup_keeps_factory:
  assumes f: "map_of d ''factory'' = Some (FactoryDict submit await)"
  shows "map_of (snd (cleanup_components d)) ''factory'' = Some (FactoryDict submit await) \<and>
    map_of (get_status (snd (cleanup_components d))) ''factory'' = Some ''active'' \<and>
    \<not> factory_missing (snd (cleanup_components d)) \<and>
    fst (submit_agent config (snd (cleanup_components d))) \<noteq>
      Inl (HTTPException 400 (JStr ''Agent factory not initialized'')) \<and>
    (\<forall>task x. map_of (agent_config config) ''task'' = Some task \<and>
        submit (agent_id config) task = Inr x \<longrightarrow>
        fst (submit_agent config (snd (cleanup_components d))) =
          Inr (JDict [(''status'', JStr ''success''), (''execution_id'', x),
                      (''message'', JStr (''Agent '' @ agent_id config
                                          @ '' submitted for execution''))]))"
proof -
  let ?d' = "snd (cleanup_components d)"
  have "''factory'' \<notin> set cleanup_order" by (simp add: cleanup_order_def)
  then have "map_of ?d' ''factory'' = map_of d ''factory''"
    by (rule cleanup_components_other_keys)
  with f have k: "map_of ?d' ''factory'' = Some (FactoryDict submit await)" by simp
  then have st: "map_of (get_status ?d') ''factory'' = Some ''active''"
    by (simp add: map_of_get_status)
  from k have m: "\<not> factory_missing ?d'" by (simp add: factory_missing_def)
  from k have e: "factory_entry ?d' = Inr (submit, await)"
    by (simp add: factory_entry_def getitem_def)
  from m e have not400: "fst (submit_agent config ?d') \<noteq>
      Inl (HTTPException 400 (JStr ''Agent factory not initialized''))"
    by (simp add: submit_agent_def Let_def except_Exception_def split: option.splits sum.splits)
  from m e have ok: "\<forall>task x. map_of (agent_config config) ''task'' = Some task \<and>
        submit (agent_id config) task = Inr x \<longrightarrow>
        fst (submit_agent config ?d') =
          Inr (JDict [(''status'', JStr ''success''), (''execution_id'', x),
                      (''message'', JStr (''Agent '' @ agent_id config
                                          @ '' submitted for execution''))])"
    by (simp add: submit_agent_def Let_def)
  from k st m not400 ok show ?thesis by (intro conjI)
qed

theorem cleanup_keeps_factory_witness:
  "map_of factory_registry ''factory'' = Some (FactoryDict example_submit example_await) \<and>
   map_of (get_status (snd (cleanup_components factory_registry))) ''factory'' = Some ''active'' \<and>
   map_of (get_status (snd (cleanup_components factory_registry))) ''llm'' = Some ''inactive'' \<and>
   fst (submit_agent example_agent (snd (cleanup_components factory_registry))) =
     Inr (JDict [(''status'', JStr ''success''), (''execution_id'', JInt 0),
                 (''message'', JStr ''Agent writer-1 submitted for execution'')])"
proof -
  have f: "map_of factory_registry ''factory'' = Some (FactoryDict example_submit example_await)"
    by (simp add: factory_registry_def)
  have t: "map_of (agent_config example_agent) ''task'' = Some (JStr ''summarize X'') \<and>
      example_submit (agent_id example_agent) (JStr ''summarize X'') = Inr (JInt 0)"
    by (simp add: example_agent_def example_submit_def)
  have l: "map_of (get_status (snd (cleanup_components factory_registry))) ''llm''
      = Some ''inactive''"
    by code_simp
  have a: "''Agent '' @ agent_id example_agent @ '' submitted for execution''
      = ''Agent writer-1 submitted for execution''"
    by (simp add: example_agent_def)
  note T = cleanup_keeps_factory [OF f, of example_agent]
  from T have s: "map_of (get_status (snd (cleanup_components factory_registry))) ''factory''
      = Some ''active''"
    by (elim conjE)
  from T have "\<forall>task x. map_of (agent_config example_agent) ''task'' = Some task \<and>
        example_submit (agent_id example_agent) task = Inr x \<longrightarrow>
        fst (submit_agent example_agent (snd (cleanup_components factory_registry))) =
          Inr (JDict [(''status'', JStr ''success''), (''execution_id'', x),
                      (''message'', JStr (''Agent '' @ agent_id example_agent
                                          @ '' submitted for execution''))])"
    by (elim conjE)
  with t have "fst (submit_agent example_agent (snd (cleanup_components factory_registry))) =
          Inr (JDict [(''status'', JStr ''success''), (''execution_id'', JInt 0),
                      (''message'', JStr (''Agent '' @ agent_id example_agent
                                          @ '' submitted for execution''))])"
    by blast
  then have u: "fst (submit_agent example_agent (snd (cleanup_components factory_registry))) =
     Inr (JDict [(''status'', JStr ''success''), (''execution_id'', JInt 0),
                 (''message'', JStr ''Agent writer-1 submitted for execution'')])"
    by (simp only: a)
  from f s l u show ?thesis by (intro conjI)
qed

subsection \<open>Setup, queries and polling\<close>


text \<open>A setup other than the scheduler's that fails leaves the registry as it was.\<close>

lemma failed_setup_keeps_registry:
  "isl (fst (setup_llm useCore c1 d)) \<Longrightarrow> snd (setup_llm useCore c1 d) = d"
  "isl (fst (setup_storage useStorageManager c2 d)) \<Longrightarrow> snd (setup_storage useStorageManager c2 d) = d"
  "isl (fst (setup_memory useMemoryManager c3 d)) \<Longrightarrow> snd (setup_memory useMemoryManager c3 d) = d"
  "isl (fst (setup_tool_manager useToolManager c4 d)) \<Longrightarrow> snd (setup_tool_manager useToolManager c4 d) = d"
  "isl (fst (setup_agent_factory useFactory c5 d)) \<Longrightarrow> snd (setup_agent_factory useFactory c5 d) = d"
  by (auto simp: setup_llm_def setup_storage_def setup_memory_def setup_tool_manager_def
      setup_agent_factory_def split: sum.splits if_splits prod.splits)

text \<open>
  C2 says that a setup that fails during construction, the start of the scheduler included,
  leaves its slot uninitialized. \<open>setup_scheduler\<close> stores the scheduler before it calls
  \<open>start()\<close>: with the four prerequisites active, the scheduler slot empty and a scheduler
  whose \<open>start()\<close> raises, the endpoint raises the 500 error "Failed to initialize
  scheduler" and the following \<open>get_status\<close> reports the scheduler active. The other
  setups store their handle only after the construction succeeded
  (\<open>failed_setup_keeps_registry\<close>).
\<close>

theorem setup_scheduler_commits_before_start:
  "map_of (get_status ready_registry) ''scheduler'' = Some ''inactive'' \<and>
   fst (setup_scheduler (\<lambda>args. Inr stuck_scheduler) example_scheduler_config ready_registry) =
     Inl (HTTPException 500 (JStr ''Failed to initialize scheduler: cannot start new thread'')) \<and>
   get_status (snd (setup_scheduler (\<lambda>args. Inr stuck_scheduler) example_scheduler_config
                      ready_registry)) =
     [(''llm'', ''active''), (''storage'', ''active''), (''memory'', ''active''),
      (''tool'', ''active''), (''scheduler'', ''active'')]"
  by code_simp

lemma handle_query_only_llm:
  "query_type request \<noteq> Llm \<Longrightarrow> handle_query send_request request d = (Inr JNone, d)"
  by (simp add: handle_query_def)

text \<open>
  C3 says that a query whose type is not \<open>llm\<close> fails with a 500 error. \<open>handle_query\<close>
  has a branch for \<open>llm\<close> only: for the query type \<open>tool\<close> it returns \<open>None\<close> without
  raising and without calling \<open>send_request\<close> (\<open>handle_query_only_llm\<close> gives the same for
  every other type than \<open>llm\<close>).
\<close>

theorem handle_query_tool_returns_None:
  "query_type example_tool_query = Tool \<and>
   handle_query (\<lambda>agent query. Inl (PyException ''RuntimeError'' ''no backend'' internal_traceback None))
     example_tool_query active_components = (Inr JNone, active_components)"
  by (simp add: handle_query_def example_tool_query_def)

text \<open>
  C4, as stated, fails. With the factory's dict stored and an await primitive that re-raises
  the \<open>SystemExit\<close> of the awaited agent, \<open>get_agent_status\<close> returns no dict: both
  handlers are \<open>except Exception\<close>, and the exception leaves the endpoint.
\<close>

theorem get_agent_status_counterexample:
  "\<not> factory_missing exiting_registry \<and>
   fst (get_agent_status 7 exiting_registry) =
     Inl (Uncaught (PyBaseException ''SystemExit'' ''agent exited'' internal_traceback None))"
  by code_simp

text \<open>
  C4, amended. When the registry holds the factory's dict and the await primitive returns
  or raises an instance of \<open>Exception\<close>, \<open>get_agent_status\<close> returns, for every execution
  id, a dict whose \<open>status\<close> is \<open>running\<close>, \<open>completed\<close> or \<open>error\<close>, raises nothing and
  leaves the registry as it is: \<open>None\<close> from the await primitive gives \<open>running\<close>, any
  other value gives \<open>completed\<close> with that value as \<open>result\<close>, and an exception gives
  \<open>error\<close> with the type name, message and traceback of the exception. An exception
  outside \<open>Exception\<close> raised by the await primitive leaves the endpoint.
\<close>

theorem get_agent_status_total:
  assumes f: "map_of d ''factory'' = Some (FactoryDict submit await_execution)"
  shows "((\<forall>e. await_execution x = Inl e \<longrightarrow> is_Exception e) \<longrightarrow>
    (\<exists>r. get_agent_status x d = (Inr r, d) \<and>
      jget r ''status'' \<in> {Some (JStr ''running''), Some (JStr ''completed''), Some (JStr ''error'')} \<and>
      (await_execution x = Inr JNone \<longrightarrow>
         r = status_running x \<and> jget r ''status'' = Some (JStr ''running'')) \<and>
      (\<forall>res. await_execution x = Inr res \<and> res \<noteq> JNone \<longrightarrow>
         r = status_completed x res \<and> jget r ''status'' = Some (JStr ''completed'') \<and>
         jget r ''result'' = Some res) \<and>
      (\<forall>e. await_execution x = Inl e \<longrightarrow>
         r = status_error x e \<and> jget r ''status'' = Some (JStr ''error'') \<and>
         (\<exists>detail. jget r ''error'' = Some detail \<and>
            jget detail ''type'' = Some (JStr (exc_type e)) \<and>
            jget detail ''message'' = Some (JStr (exc_msg e)) \<and>
            jget detail ''traceback'' = Some (JStr (exc_traceback e)))))) \<and>
    (\<forall>e. await_execution x = Inl e \<and> \<not> is_Exception e \<longrightarrow>
       get_agent_status x d = (Inl (Uncaught e), d))"
proof -
  from f have m: "\<not> factory_missing d" by (simp add: factory_missing_def)
  from f have e: "factory_entry d = Inr (submit, await_execution)"
    by (simp add: factory_entry_def getitem_def)
  show ?thesis
  proof (cases "await_execution x")
    case (Inl ex)
    show ?thesis
    proof (cases "is_Exception ex")
      case True
      with Inl m e have "get_agent_status x d = (Inr (status_error x ex), d)"
        by (simp add: get_agent_status_def poll_failed_def)
      with Inl True show ?thesis by (simp add: status_error_def)
    next
      case False
      with Inl m e have "get_agent_status x d = (Inl (Uncaught ex), d)"
        by (simp add: get_agent_status_def poll_failed_def)
      with Inl False show ?thesis by auto
    qed
  next
    case (Inr res)
    show ?thesis
    proof (cases "res = JNone")
      case True
      with Inr m e have "get_agent_status x d = (Inr (status_running x), d)"
        by (simp add: get_agent_status_def)
      with Inr True show ?thesis by (simp add: status_running_def)
    next
      case False
      with Inr m e have "get_agent_status x d = (Inr (status_completed x res), d)"
        by (simp add: get_agent_status_def)
      with Inr False show ?thesis by (simp add: status_completed_def)
    qed
  qed
qed

theorem get_agent_status_total_witness:
  "map_of factory_registry ''factory'' = Some (FactoryDict example_submit example_await) \<and>
   example_await 2 =
     Inl (PyException ''KeyError'' ''unknown execution'' internal_traceback None) \<and>
   is_Exception (PyException ''KeyError'' ''unknown execution'' internal_traceback None) \<and>
   get_agent_status 0 factory_registry = (Inr (status_running 0), factory_registry) \<and>
   get_agent_status 1 factory_registry =
     (Inr (status_completed 1 (JStr ''summary of X'')), factory_registry) \<and>
   get_agent_status 2 factory_registry =
     (Inr (status_error 2 (PyException ''KeyError'' ''unknown execution'' internal_traceback None)),
      factory_registry)"
proof -
  have f: "map_of factory_registry ''factory'' = Some (FactoryDict example_submit example_await)"
    by (simp add: factory_registry_def)
  have ex: "\<forall>x e. example_await x = Inl e \<longrightarrow> is_Exception e"
    by (auto simp: example_await_def split: if_splits)
  have a0: "example_await 0 = Inr JNone" by (simp add: example_await_def)
  have a1: "example_await 1 = Inr (JStr ''summary of X'') \<and> JStr ''summary of X'' \<noteq> JNone"
    by (simp add: example_await_def)
  have a2: "example_await 2 =
      Inl (PyException ''KeyError'' ''unknown execution'' internal_traceback None)"
    by (simp add: example_await_def)
  from get_agent_status_total [OF f, of 0] ex a0
  have r0: "get_agent_status 0 factory_registry = (Inr (status_running 0), factory_registry)"
    by auto
  from get_agent_status_total [OF f, of 1] ex a1
  have r1: "get_agent_status 1 factory_registry =
     (Inr (status_completed 1 (JStr ''summary of X'')), factory_registry)"
    by auto
  from get_agent_status_total [OF f, of 2] ex a2
  have r2: "get_agent_status 2 factory_registry =
     (Inr (status_error 2 (PyException ''KeyError'' ''unknown execution'' internal_traceback None)),
      factory_registry)"
    by auto
  have ie: "is_Exception (PyException ''KeyError'' ''unknown execution'' internal_traceback None)"
    by simp
  from f a2 ie r0 r1 r2 show ?thesis by (intro conjI)
qed

text \<open>
  C8. In a registry where llm and storage are active and memory, tool and scheduler hold
  \<open>None\<close>, \<open>setup_scheduler\<close> raises the 400 error with detail
  "Missing required components: memory, tool", leaves the registry as it is, and the
  scheduler stays inactive.
\<close>

theorem setup_scheduler_names_missing:
  assumes "map_of d ''llm'' = Some llm" "truthy llm"
    and "map_of d ''storage'' = Some storage" "truthy storage"
    and "map_of d ''memory'' = Some PyNone" "map_of d ''tool'' = Some PyNone"
    and "map_of d ''scheduler'' = Some PyNone"
  shows "setup_scheduler fifo_scheduler config d =
      (Inl (HTTPException 400 (JStr ''Missing required components: memory, tool'')), d) \<and>
    map_of (get_status (snd (setup_scheduler fifo_scheduler config d))) ''scheduler''
      = Some ''inactive''"
proof -
  from assms have "missing_components d required_components = Inr [''memory'', ''tool'']"
    by (simp add: required_components_def getitem_def)
  then have r: "setup_scheduler fifo_scheduler config d =
      (Inl (HTTPException 400 (JStr ''Missing required components: memory, tool'')), d)"
    by (simp add: setup_scheduler_def)
  from assms(7) have "map_of (get_status d) ''scheduler'' = Some ''inactive''"
    by (simp add: map_of_get_status)
  with r show ?thesis by simp
qed

theorem setup_scheduler_names_missing_witness:
  "map_of half_registry ''llm'' = Some (Component example_llm) \<and> truthy (Component example_llm) \<and>
   map_of half_registry ''storage'' = Some (Component example_storage) \<and>
   truthy (Component example_storage) \<and>
   map_of half_registry ''memory'' = Some PyNone \<and> map_of half_registry ''tool'' = Some PyNone \<and>
   map_of half_registry ''scheduler'' = Some PyNone \<and>
   setup_scheduler (\<lambda>args. Inr example_scheduler) example_scheduler_config half_registry =
      (Inl (HTTPException 400 (JStr ''Missing required components: memory, tool'')), half_registry)"
proof -
  have h: "map_of half_registry ''llm'' = Some (Component example_llm)"
    "truthy (Component example_llm)"
    "map_of half_registry ''storage'' = Some (Component example_storage)"
    "truthy (Component example_storage)"
    "map_of half_registry ''memory'' = Some PyNone" "map_of half_registry ''tool'' = Some PyNone"
    "map_of half_registry ''scheduler'' = Some PyNone"
    by (simp_all add: half_registry_def)
  from setup_scheduler_names_missing [OF h, of "\<lambda>args. Inr example_scheduler"
      example_scheduler_config] h
  show ?thesis by simp
qed

subsection \<open>What every sequence of requests preserves\<close>


lemma keys_update_member:
  "k \<in> set (map fst d) \<Longrightarrow> map fst (AList.update k v d) = map fst d"
  by (simp add: update_keys)

lemma slot_active_update_other:
  "k' \<noteq> k \<Longrightarrow> slot_active (AList.update k v d) k' = slot_active d k'"
  by (simp add: slot_active_def map_of_update_other)

lemma slot_active_update_same: "slot_active (AList.update k v d) k = truthy v"
  by (simp add: slot_active_def map_of_update_same)

lemma registry_ok_keys:
  assumes "registry_ok d"
  shows "''llm'' \<in> set (map fst d)" "''storage'' \<in> set (map fst d)"
    "''memory'' \<in> set (map fst d)" "''tool'' \<in> set (map fst d)"
    "''scheduler'' \<in> set (map fst d)"
  using assms by (auto simp: registry_ok_def core_slots_def)

lemma registry_ok_same_slots:
  assumes ok: "registry_ok d"
    and keys: "map fst d' = map fst d"
    and mem: "slot_active d' ''memory'' \<Longrightarrow> slot_active d' ''storage''"
  shows "registry_ok d'"
  using ok keys mem by (simp add: registry_ok_def)

lemma registry_ok_update_other:
  assumes ok: "registry_ok d" and k: "k \<in> set (map fst d)"
    and ne: "k \<noteq> ''memory''" "k \<noteq> ''storage''"
  shows "registry_ok (AList.update k v d)"
proof (rule registry_ok_same_slots [OF ok])
  from k show "map fst (AList.update k v d) = map fst d" by (rule keys_update_member)
next
  assume "slot_active (AList.update k v d) ''memory''"
  with ne have "slot_active d ''memory''" by (simp add: slot_active_update_other)
  with ok have "slot_active d ''storage''" by (simp add: registry_ok_def)
  with ne show "slot_active (AList.update k v d) ''storage''"
    by (simp add: slot_active_update_other)
qed

lemma registry_ok_setup_llm: "registry_ok d \<Longrightarrow> registry_ok (snd (setup_llm useCore config d))"
  by (auto simp: setup_llm_def split: sum.splits
      intro!: registry_ok_update_other dest: registry_ok_keys(1))

lemma registry_ok_setup_tool:
  "registry_ok d \<Longrightarrow> registry_ok (snd (setup_tool_manager useToolManager config d))"
  by (auto simp: setup_tool_manager_def split: sum.splits
      intro!: registry_ok_update_other dest: registry_ok_keys(4))

lemma registry_ok_setup_storage:
  assumes ok: "registry_ok d"
  shows "registry_ok (snd (setup_storage useStorageManager config d))"
proof -
  have "registry_ok (AList.update ''storage'' (Component h) d)" for h
  proof (rule registry_ok_same_slots [OF ok])
    from registry_ok_keys(2) [OF ok]
    show "map fst (AList.update ''storage'' (Component h) d) = map fst d"
      by (rule keys_update_member)
  next
    show "slot_active (AList.update ''storage'' (Component h) d) ''storage''"
      by (simp add: slot_active_update_same)
  qed
  with ok show ?thesis by (simp add: setup_storage_def split: sum.splits)
qed

lemma registry_ok_setup_memory:
  assumes ok: "registry_ok d"
  shows "registry_ok (snd (setup_memory useMemoryManager config d))"
proof -
  have "registry_ok (AList.update ''memory'' (Component h) d)"
    if "map_of d ''storage'' = Some st" "truthy st" for h st
  proof (rule registry_ok_same_slots [OF ok])
    from registry_ok_keys(3) [OF ok]
    show "map fst (AList.update ''memory'' (Component h) d) = map fst d"
      by (rule keys_update_member)
  next
    from that have "slot_active d ''storage''" by (simp add: slot_active_def)
    then show "slot_active (AList.update ''memory'' (Component h) d) ''storage''"
      by (simp add: slot_active_update_other)
  qed
  with ok show ?thesis
    by (auto simp: setup_memory_def getitem_def split: sum.splits option.splits)
qed

lemma registry_ok_setup_scheduler:
  assumes ok: "registry_ok d"
  shows "registry_ok (snd (setup_scheduler fifo_scheduler config d))"
proof -
  have u: "registry_ok (AList.update ''scheduler'' v d)" for v
    using ok registry_ok_keys(5) [OF ok] by (intro registry_ok_update_other) simp_all
  have "snd (setup_scheduler fifo_scheduler config d) = d \<or>
      (\<exists>v. snd (setup_scheduler fifo_scheduler config d) = AList.update ''scheduler'' v d)"
    by (auto simp: setup_scheduler_def Let_def split: sum.splits option.splits)
  with ok u show ?thesis by auto
qed

lemma keys_setup_agent_factory:
  assumes ok: "registry_ok d"
  shows "map fst (snd (setup_agent_factory useFactory config d)) =
     (if isl (fst (setup_agent_factory useFactory config d)) then map fst d
      else core_slots @ [''factory''])"
proof -
  have "map fst (AList.update ''factory'' v d) = core_slots @ [''factory'']" for v
    using ok by (auto simp: update_keys registry_ok_def core_slots_def)
  then show ?thesis
    by (auto simp: setup_agent_factory_def split: sum.splits prod.splits)
qed

lemma registry_ok_setup_agent_factory:
  assumes ok: "registry_ok d"
  shows "registry_ok (snd (setup_agent_factory useFactory config d))"
proof -
  have "registry_ok (AList.update ''factory'' v d)" for v
    unfolding registry_ok_def
  proof (intro conjI impI)
    show "map fst (AList.update ''factory'' v d) = core_slots \<or>
        map fst (AList.update ''factory'' v d) = core_slots @ [''factory'']"
      using ok by (auto simp: update_keys registry_ok_def core_slots_def)
  next
    assume "slot_active (AList.update ''factory'' v d) ''memory''"
    then have "slot_active d ''memory''" by (simp add: slot_active_update_other)
    with ok have "slot_active d ''storage''" by (simp add: registry_ok_def)
    then show "slot_active (AList.update ''factory'' v d) ''storage''"
      by (simp add: slot_active_update_other)
  qed
  with ok show ?thesis
    by (auto simp: setup_agent_factory_def split: sum.splits prod.splits)
qed

lemma cleanup_components_keys: "map fst (snd (cleanup_components d)) = map fst d"
proof (cases d rule: cleanup_components_cases)
  case (no_scheduler e)
  then show ?thesis by simp
next
  case (stop_failed v e)
  then show ?thesis by simp
next
  case (loop_failed v e d')
  from loop_failed(1) have "map_of d ''scheduler'' = Some v" by (simp add: getitem_Inr)
  then have "map fst (AList.update ''scheduler'' PyNone d) = map fst d"
    by (rule keys_update_present)
  with cleanup_loop_keys [of "[''tool'', ''memory'', ''storage'', ''llm'']"
      "AList.update ''scheduler'' PyNone d"] loop_failed(3,4)
  show ?thesis by simp
next
  case (cleaned v d')
  from cleaned(1) have "map_of d ''scheduler'' = Some v" by (simp add: getitem_Inr)
  then have "map fst (AList.update ''scheduler'' PyNone d) = map fst d"
    by (rule keys_update_present)
  with cleanup_loop_keys [of "[''tool'', ''memory'', ''storage'', ''llm'']"
      "AList.update ''scheduler'' PyNone d"] cleaned(3,4)
  show ?thesis by simp
qed

lemma memory_before_storage:
  assumes "cleanup_order = pre @ post" "''storage'' \<in> set pre"
  shows "''memory'' \<in> set pre"
  using assms by (auto simp: cleanup_order_def Cons_eq_append_conv)

lemma registry_ok_cleanup:
  assumes ok: "registry_ok d"
  shows "registry_ok (snd (cleanup_components d))"
proof (rule registry_ok_same_slots [OF ok])
  show "map fst (snd (cleanup_components d)) = map fst d" by (rule cleanup_components_keys)
next
  let ?d' = "snd (cleanup_components d)"
  assume m: "slot_active ?d' ''memory''"
  obtain pre post where p: "cleanup_order = pre @ post" "reset_upto pre d ?d'"
    using cleanup_components_reset by blast
  have nm: "''memory'' \<notin> set pre"
  proof
    assume "''memory'' \<in> set pre"
    with p(2) have "map_of ?d' ''memory'' = Some PyNone" unfolding reset_upto_def by blast
    with m show False by (simp add: slot_active_def)
  qed
  with p(1) have ns: "''storage'' \<notin> set pre" using memory_before_storage by blast
  from nm p(2) have "map_of ?d' ''memory'' = map_of d ''memory''"
    unfolding reset_upto_def by blast
  with m have "slot_active d ''memory''" by (simp add: slot_active_def)
  with ok have "slot_active d ''storage''" by (simp add: registry_ok_def)
  moreover from ns p(2) have "map_of ?d' ''storage'' = map_of d ''storage''"
    unfolding reset_upto_def by blast
  ultimately show "slot_active ?d' ''storage''" by (simp add: slot_active_def)
qed

lemma snd_submit_agent: "snd (submit_agent config d) = d"
  by (simp add: submit_agent_def Let_def split: sum.splits option.splits prod.splits)

lemma snd_get_agent_status: "snd (get_agent_status x d) = d"
  by (simp add: get_agent_status_def poll_failed_def split: sum.splits prod.splits)

lemma snd_handle_query: "snd (handle_query send_request request d) = d"
  by (simp add: handle_query_def Let_def split: sum.splits)

lemma registry_ok_serve: "registry_ok d \<Longrightarrow> registry_ok (snd (serve r d))"
  by (cases r)
     (simp_all add: registry_ok_setup_llm registry_ok_setup_storage registry_ok_setup_memory
        registry_ok_setup_tool registry_ok_setup_agent_factory registry_ok_setup_scheduler
        registry_ok_cleanup snd_submit_agent snd_get_agent_status snd_handle_query)

lemma registry_ok_serve_all: "registry_ok d \<Longrightarrow> registry_ok (serve_all rs d)"
  by (induction rs arbitrary: d) (simp_all add: registry_ok_serve)

lemma registry_ok_initial: "registry_ok active_components"
  by (simp add: registry_ok_def active_components_def core_slots_def slot_active_def)

subsection \<open>Status keys and the order of setups\<close>



lemma keys_serve_other:
  assumes ok: "registry_ok d" and nf: "\<And>useFactory config. r \<noteq> SetupFactory useFactory config"
  shows "map fst (snd (serve r d)) = map fst d"
proof (cases r)
  case (SetupLlm u c)
  with registry_ok_keys(1) [OF ok] show ?thesis
    by (auto simp: setup_llm_def keys_update_member split: sum.splits)
next
  case (SetupStorage u c)
  with registry_ok_keys(2) [OF ok] show ?thesis
    by (auto simp: setup_storage_def keys_update_member split: sum.splits)
next
  case (SetupMemory u c)
  with registry_ok_keys(3) [OF ok] show ?thesis
    by (auto simp: setup_memory_def keys_update_member split: sum.splits)
next
  case (SetupTool u c)
  with registry_ok_keys(4) [OF ok] show ?thesis
    by (auto simp: setup_tool_manager_def keys_update_member split: sum.splits)
next
  case (SetupFactory u c)
  with nf show ?thesis by blast
next
  case (SetupScheduler u c)
  have "snd (setup_scheduler u c d) = d \<or>
      (\<exists>v. snd (setup_scheduler u c d) = AList.update ''scheduler'' v d)"
    by (auto simp: setup_scheduler_def Let_def split: sum.splits option.splits)
  moreover have "map fst (AList.update ''scheduler'' v d) = map fst d" for v
    using registry_ok_keys(5) [OF ok] by (rule keys_update_member)
  ultimately have "map fst (snd (setup_scheduler u c d)) = map fst d" by auto
  with SetupScheduler show ?thesis by simp
next
  case GetStatus
  then show ?thesis by simp
next
  case (SubmitAgent c)
  then show ?thesis by (simp add: snd_submit_agent)
next
  case (GetAgentStatus x)
  then show ?thesis by (simp add: snd_get_agent_status)
next
  case Cleanup
  then show ?thesis by (simp add: cleanup_components_keys)
next
  case (Query sr q)
  then show ?thesis by (simp add: snd_handle_query)
qed

lemma keys_serve_all:
  "registry_ok d \<Longrightarrow>
     map fst (serve_all rs d) =
       (if factory_setup_succeeded rs d then core_slots @ [''factory''] else map fst d)"
proof (induction rs arbitrary: d)
  case Nil
  show ?case by simp
next
  case (Cons r rs)
  let ?d1 = "snd (serve r d)"
  from Cons.prems have ok1: "registry_ok ?d1" by (rule registry_ok_serve)
  note IH = Cons.IH [OF ok1]
  show ?case
  proof (cases "\<exists>useFactory config. r = SetupFactory useFactory config")
    case False
    then have nf: "\<And>useFactory config. r \<noteq> SetupFactory useFactory config" by blast
    with Cons.prems have k: "map fst ?d1 = map fst d" by (rule keys_serve_other)
    from False have "factory_setup_succeeded (r # rs) d = factory_setup_succeeded rs ?d1"
      by (cases r) simp_all
    with IH k show ?thesis by simp
  next
    case True
    then obtain u c where r: "r = SetupFactory u c" by blast
    from keys_setup_agent_factory [OF Cons.prems, of u c] r
    have k: "map fst ?d1 = (if isl (fst (serve r d)) then map fst d else core_slots @ [''factory''])"
      by simp
    from r have "factory_setup_succeeded (r # rs) d =
        (\<not> isl (fst (serve r d)) \<or> factory_setup_succeeded rs ?d1)"
      by simp
    with IH k show ?thesis by auto
  qed
qed

text \<open>
  C10. The keys of the status map are exactly llm, storage, memory, tool and scheduler at
  the start and after every sequence of requests in which no factory setup returned
  normally; once a factory setup has returned normally the key \<open>factory\<close> is the sixth
  key, and it stays in the status map after every later request, cleanup included.
\<close>

theorem factory_key_after_setup:
  "map fst (get_status active_components) = [''llm'', ''storage'', ''memory'', ''tool'', ''scheduler''] \<and>
   map fst (get_status (serve_all rs active_components)) =
     (if factory_setup_succeeded rs active_components
      then [''llm'', ''storage'', ''memory'', ''tool'', ''scheduler'', ''factory'']
      else [''llm'', ''storage'', ''memory'', ''tool'', ''scheduler''])"
proof -
  have i: "map fst active_components = core_slots"
    by (simp add: active_components_def core_slots_def)
  from keys_serve_all [OF registry_ok_initial, of rs] i
  show ?thesis by (simp add: keys_get_status core_slots_def)
qed

theorem factory_key_after_setup_witness:
  "\<not> factory_setup_succeeded (take 5 example_session) active_components \<and>
   map fst (get_status (serve_all (take 5 example_session) active_components)) =
     [''llm'', ''storage'', ''memory'', ''tool'', ''scheduler''] \<and>
   factory_setup_succeeded example_session active_components \<and>
   map fst (get_status (serve_all example_session active_components)) =
     [''llm'', ''storage'', ''memory'', ''tool'', ''scheduler'', ''factory'']"
proof -
  have a: "\<not> factory_setup_succeeded (take 5 example_session) active_components" by code_simp
  have b: "factory_setup_succeeded example_session active_components" by code_simp
  from factory_key_after_setup [of "take 5 example_session"] a
  have c: "map fst (get_status (serve_all (take 5 example_session) active_components)) =
     [''llm'', ''storage'', ''memory'', ''tool'', ''scheduler'']"
    by simp
  from factory_key_after_setup [of example_session] b
  have d: "map fst (get_status (serve_all example_session active_components)) =
     [''llm'', ''storage'', ''memory'', ''tool'', ''scheduler'', ''factory'']"
    by simp
  from a c b d show ?thesis by (intro conjI)
qed

text \<open>
  C7. In every registry the application can reach in which storage is not active,
  \<open>setup_memory\<close> raises the 400 error "Storage manager must be initialized first",
  leaves the registry as it is, and the memory slot holds \<open>None\<close>. After a
  \<open>setup_storage\<close> that returned normally, in any registry, \<open>setup_memory\<close> passes the
  check, and when \<open>useMemoryManager\<close> returns a handle it stores the handle and
  \<open>get_status\<close> reports memory active.
\<close>

theorem setup_memory_needs_storage:
  "(\<not> slot_active (serve_all rs active_components) ''storage'' \<longrightarrow>
      setup_memory useMemoryManager config (serve_all rs active_components) =
        (Inl (HTTPException 400 (JStr ''Storage manager must be initialized first'')),
         serve_all rs active_components) \<and>
      map_of (serve_all rs active_components) ''memory'' = Some PyNone) \<and>
   (\<forall>r d1. setup_storage useStorageManager storage_config d = (Inr r, d1) \<longrightarrow>
      (\<exists>st. map_of d1 ''storage'' = Some st \<and>
         (\<forall>mm. useMemoryManager (memory_limit config, eviction_k config, st) = Inr mm \<longrightarrow>
            setup_memory useMemoryManager config d1 =
              (Inr (success ''Memory manager initialized''),
               AList.update ''memory'' (Component mm) d1) \<and>
            map_of (get_status (snd (setup_memory useMemoryManager config d1))) ''memory''
              = Some ''active'')))"
proof (intro conjI impI allI)
  let ?d = "serve_all rs active_components"
  assume ns: "\<not> slot_active ?d ''storage''"
  have ok: "registry_ok ?d" using registry_ok_initial by (rule registry_ok_serve_all)
  from registry_ok_keys(2) [OF ok] obtain st where st: "map_of ?d ''storage'' = Some st"
    by (metis domD dom_map_of_conv_image_fst set_map)
  with ns have "\<not> truthy st" by (simp add: slot_active_def)
  with st show "setup_memory useMemoryManager config ?d =
        (Inl (HTTPException 400 (JStr ''Storage manager must be initialized first'')), ?d)"
    by (simp add: setup_memory_def getitem_def)
  from registry_ok_keys(3) [OF ok] obtain m where m: "map_of ?d ''memory'' = Some m"
    by (metis domD dom_map_of_conv_image_fst set_map)
  from ok ns have "\<not> slot_active ?d ''memory''" by (auto simp: registry_ok_def)
  with m have "\<not> truthy m" by (simp add: slot_active_def)
  with m show "map_of ?d ''memory'' = Some PyNone" by (simp add: falsy_is_None)
next
  fix r d1
  assume s: "setup_storage useStorageManager storage_config d = (Inr r, d1)"
  then obtain h where d1: "d1 = AList.update ''storage'' (Component h) d"
    by (auto simp: setup_storage_def split: sum.splits)
  then have st: "map_of d1 ''storage'' = Some (Component h)" by (simp add: map_of_update_same)
  have "\<forall>mm. useMemoryManager (memory_limit config, eviction_k config, Component h) = Inr mm \<longrightarrow>
            setup_memory useMemoryManager config d1 =
              (Inr (success ''Memory manager initialized''),
               AList.update ''memory'' (Component mm) d1) \<and>
            map_of (get_status (snd (setup_memory useMemoryManager config d1))) ''memory''
              = Some ''active''"
    using st by (simp add: setup_memory_def getitem_def map_of_get_status map_of_update_same)
  with st show "\<exists>st. map_of d1 ''storage'' = Some st \<and>
         (\<forall>mm. useMemoryManager (memory_limit config, eviction_k config, st) = Inr mm \<longrightarrow>
            setup_memory useMemoryManager config d1 =
              (Inr (success ''Memory manager initialized''),
               AList.update ''memory'' (Component mm) d1) \<and>
            map_of (get_status (snd (setup_memory useMemoryManager config d1))) ''memory''
              = Some ''active'')"
    by blast
qed

theorem setup_memory_needs_storage_witness:
  "\<not> slot_active (serve_all [] active_components) ''storage'' \<and>
   setup_memory (\<lambda>args. Inr example_memory) example_memory_config active_components =
     (Inl (HTTPException 400 (JStr ''Storage manager must be initialized first'')),
      active_components) \<and>
   map_of active_components ''memory'' = Some PyNone \<and>
   setup_storage (\<lambda>args. Inr example_storage) example_storage_config active_components =
     (Inr (success ''Storage manager initialized''),
      AList.update ''storage'' (Component example_storage) active_components) \<and>
   map_of (get_status (snd (setup_memory (\<lambda>args. Inr example_memory) example_memory_config
       (AList.update ''storage'' (Component example_storage) active_components)))) ''memory''
     = Some ''active''"
proof -
  note T = setup_memory_needs_storage [where rs = "[]"
      and useMemoryManager = "\<lambda>args. Inr example_memory" and config = example_memory_config
      and useStorageManager = "\<lambda>args. Inr example_storage"
      and storage_config = example_storage_config and d = active_components]
  have ns: "\<not> slot_active (serve_all [] active_components) ''storage''"
    by (simp add: slot_active_def active_components_def)
  from T ns have a: "setup_memory (\<lambda>args. Inr example_memory) example_memory_config
        active_components =
     (Inl (HTTPException 400 (JStr ''Storage manager must be initialized first'')),
      active_components)"
    and b: "map_of active_components ''memory'' = Some PyNone"
    by simp_all
  have s: "setup_storage (\<lambda>args. Inr example_storage) example_storage_config active_components =
     (Inr (success ''Storage manager initialized''),
      AList.update ''storage'' (Component example_storage) active_components)"
    by (simp add: setup_storage_def)
  from T s obtain st where st: "map_of (AList.update ''storage'' (Component example_storage)
        active_components) ''storage'' = Some st"
    and m: "\<forall>mm. Inr example_memory = (Inr mm :: py_exception + component) \<longrightarrow>
      map_of (get_status (snd (setup_memory (\<lambda>args. Inr example_memory) example_memory_config
        (AList.update ''storage'' (Component example_storage) active_components)))) ''memory''
        = Some ''active''"
    by blast
  from m have c: "map_of (get_status (snd (setup_memory (\<lambda>args. Inr example_memory)
        example_memory_config
        (AList.update ''storage'' (Component example_storage) active_components)))) ''memory''
        = Some ''active''"
    by blast
  from ns a b s c show ?thesis by (intro conjI)
qed

end
